theory Spec2Isabelle
  imports Main
begin

section \<open>Common types\<close>

text \<open>
  A shallow embedding of the session and cache packages of goexpress-redis.
  An instant (\<^verbatim>\<open>time.Time\<close>) and a duration (\<^verbatim>\<open>time.Duration\<close>) are integers counted in
  nanoseconds on one clock, which the program and the Redis server share; every operation
  below receives the reading of the clock it makes as the argument \<open>now\<close>.  A \<^verbatim>\<open>[]byte\<close> is a string.  A pointer \<^verbatim>\<open>*Session\<close> is an index
  into a heap of sessions; an index outside the heap plays the part of the nil pointer.
\<close>

type_synonym time = int
type_synonym duration = int
type_synonym bytes = string
type_synonym addr = nat

definition Millisecond :: duration where
  "Millisecond = 1000000"

definition Second :: duration where
  "Second = 1000000000"

definition Hour :: duration where
  "Hour = 3600 * Second"

text \<open>
  Go's division of integers truncates toward zero; the divisors here are the positive
  units of time.
\<close>

definition quot :: "int \<Rightarrow> int \<Rightarrow> int" where
  "quot a b = (if a < 0 then - ((- a) div b) else a div b)"

text \<open>
  The error values of the two packages (\<^verbatim>\<open>ErrSessionNotFound\<close>, \<^verbatim>\<open>ErrSessionExpired\<close>,
  \<^verbatim>\<open>ErrCacheMiss\<close>), the errors the libraries hand back (\<^verbatim>\<open>redis.Nil\<close>, any other failure of
  a Redis command, a failure of \<^verbatim>\<open>encoding/json\<close> or \<^verbatim>\<open>encoding/base64\<close>), an error returned
  by a request handler, and a run-time panic.
\<close>

datatype error =
    ErrSessionNotFound
  | ErrSessionExpired
  | ErrCacheMiss
  | RedisNil
  | RedisFailure string
  | CodecError string
  | HandlerError string
  | Panic string

section \<open>The session entity (session/store.go)\<close>

text \<open>
  \<^verbatim>\<open>Data\<close> is a Go map, which may be nil: \<open>None\<close> is the nil map, \<open>Some m\<close> an allocated one.
  The values are of the open type \<^verbatim>\<open>interface{}\<close>, here the type parameter \<open>'v\<close>.
\<close>

record 'v Session =
  ID :: string
  Data :: "(string \<rightharpoonup> 'v) option"
  CreatedAt :: time
  ExpiresAt :: time
  UpdatedAt :: time

text \<open>
  \<^verbatim>\<open>NewSession(maxAge)\<close>; \<open>sid\<close> is the identifier that \<^verbatim>\<open>generateSessionID\<close> draws from
  \<^verbatim>\<open>crypto/rand\<close>.
\<close>

definition NewSession :: "time \<Rightarrow> string \<Rightarrow> duration \<Rightarrow> 'v Session" where
  "NewSession now sid maxAge =
     \<lparr>ID = sid, Data = Some Map.empty, CreatedAt = now, ExpiresAt = now + maxAge,
      UpdatedAt = now\<rparr>"

text \<open>\<^verbatim>\<open>time.Now().After(s.ExpiresAt)\<close>\<close>

definition IsExpired :: "time \<Rightarrow> 'v Session \<Rightarrow> bool" where
  "IsExpired now s = (ExpiresAt s < now)"

text \<open>
  \<^verbatim>\<open>s.Data[key] = value\<close> panics on a nil map; reading a nil map and deleting from it do not.
\<close>

definition Session_Set :: "time \<Rightarrow> string \<Rightarrow> 'v \<Rightarrow> 'v Session \<Rightarrow> error + 'v Session" where
  "Session_Set now key val s =
     (case Data s of
        None \<Rightarrow> Inl (Panic ''assignment to entry in nil map'')
      | Some m \<Rightarrow> Inr (s\<lparr>Data := Some (m(key \<mapsto> val)), UpdatedAt := now\<rparr>))"

definition Session_Get :: "string \<Rightarrow> 'v Session \<Rightarrow> 'v option" where
  "Session_Get key s = (case Data s of None \<Rightarrow> None | Some m \<Rightarrow> m key)"

definition Session_Delete :: "time \<Rightarrow> string \<Rightarrow> 'v Session \<Rightarrow> 'v Session" where
  "Session_Delete now key s =
     s\<lparr>Data := (case Data s of None \<Rightarrow> None | Some m \<Rightarrow> Some (m(key := None))),
       UpdatedAt := now\<rparr>"

definition Session_Clear :: "time \<Rightarrow> 'v Session \<Rightarrow> 'v Session" where
  "Session_Clear now s = s\<lparr>Data := Some Map.empty, UpdatedAt := now\<rparr>"

subsection \<open>The heap of sessions\<close>

definition deref :: "'a list \<Rightarrow> addr \<Rightarrow> 'a option" where
  "deref h p = (if p < length h then Some (h ! p) else None)"

definition alloc :: "'a \<Rightarrow> 'a list \<Rightarrow> addr \<times> 'a list" where
  "alloc x h = (length h, h @ [x])"

definition store_at :: "addr \<Rightarrow> 'a \<Rightarrow> 'a list \<Rightarrow> 'a list" where
  "store_at p x h = h[p := x]"

section \<open>The Redis server behind the client (go-redis)\<close>

text \<open>
  The client library is not part of the repository; this is the model of the commands the
  code issues.  A key holds a string or a set, with an optional deadline after which the
  server no longer shows it (the key's time to live, kept as the instant it ends).  A
  command can fail before it reaches the server: \<open>faults\<close> lists, for the commands to come,
  whether each one fails (the empty list: none fails), and a failed command changes nothing.
  The server counts time in whole milliseconds and shows a key as long as its millisecond
  is not past the one of the deadline: at least until the deadline kept here.
\<close>

datatype rvalue = RString bytes | RSet "string set"

record redis =
  kv :: "string \<rightharpoonup> (rvalue \<times> time option)"
  faults :: "bool list"

definition redis_attempt :: "redis \<Rightarrow> bool \<times> redis" where
  "redis_attempt r =
     (case faults r of [] \<Rightarrow> (True, r) | f # fs \<Rightarrow> (\<not> f, r\<lparr>faults := fs\<rparr>))"

definition live :: "time \<Rightarrow> time option \<Rightarrow> bool" where
  "live now dl = (case dl of None \<Rightarrow> True | Some t \<Rightarrow> now < t)"

definition redis_lookup :: "time \<Rightarrow> redis \<Rightarrow> string \<Rightarrow> (rvalue \<times> time option) option" where
  "redis_lookup now r k =
     (case kv r k of
        None \<Rightarrow> None
      | Some (v, dl) \<Rightarrow> if live now dl then Some (v, dl) else None)"

text \<open>\<^verbatim>\<open>GET key\<close>: \<^verbatim>\<open>redis.Nil\<close> when the key is absent.\<close>

definition redis_Get :: "time \<Rightarrow> string \<Rightarrow> redis \<Rightarrow> (error + bytes) \<times> redis" where
  "redis_Get now k r =
     (case redis_attempt r of
        (False, r') \<Rightarrow> (Inl (RedisFailure ''command failed''), r')
      | (True, r') \<Rightarrow>
          (case redis_lookup now r' k of
             None \<Rightarrow> (Inl RedisNil, r')
           | Some (RString b, dl) \<Rightarrow> (Inr b, r')
           | Some (RSet S, dl) \<Rightarrow> (Inl (RedisFailure ''WRONGTYPE''), r')))"

text \<open>
  The client sends a time to live as a whole number of milliseconds (\<^verbatim>\<open>PX\<close>) when the
  duration is below a second or not a whole number of seconds, and as a whole number of
  seconds otherwise; the division truncates, and a positive duration below the unit is
  sent as 1 (\<^verbatim>\<open>usePrecise\<close>, \<^verbatim>\<open>formatMs\<close>, \<^verbatim>\<open>formatSec\<close> of go-redis).
\<close>

definition usePrecise :: "duration \<Rightarrow> bool" where
  "usePrecise dur = (dur < Second \<or> quot dur Second * Second \<noteq> dur)"

definition formatMs :: "duration \<Rightarrow> int" where
  "formatMs dur = (if 0 < dur \<and> dur < Millisecond then 1 else quot dur Millisecond)"

definition formatSec :: "duration \<Rightarrow> int" where
  "formatSec dur = (if 0 < dur \<and> dur < Second then 1 else quot dur Second)"

text \<open>The time to live that \<^verbatim>\<open>SET\<close> arms for a positive expiration.\<close>

definition sent_expiration :: "duration \<Rightarrow> duration" where
  "sent_expiration ttl =
     (if usePrecise ttl then formatMs ttl * Millisecond else formatSec ttl * Second)"

text \<open>
  \<^verbatim>\<open>SET key value\<close> with the expiration the client is given: a positive one arms the
  deadline with the time to live as it is sent, \<^verbatim>\<open>redis.KeepTTL\<close> (-1) keeps the key's
  deadline, anything else stores the key with no deadline.
\<close>

definition redis_Set :: "time \<Rightarrow> string \<Rightarrow> bytes \<Rightarrow> duration \<Rightarrow> redis \<Rightarrow> error option \<times> redis" where
  "redis_Set now k b ttl r =
     (case redis_attempt r of
        (False, r') \<Rightarrow> (Some (RedisFailure ''command failed''), r')
      | (True, r') \<Rightarrow>
          (let dl = (if 0 < ttl then Some (now + sent_expiration ttl)
                     else if ttl = - 1 then
                       (case redis_lookup now r' k of None \<Rightarrow> None | Some (v, d) \<Rightarrow> d)
                     else None)
           in (None, r'\<lparr>kv := (kv r')(k \<mapsto> (RString b, dl))\<rparr>)))"

text \<open>\<^verbatim>\<open>DEL key...\<close>: removing an absent key is no error.\<close>

definition redis_Del :: "string set \<Rightarrow> redis \<Rightarrow> error option \<times> redis" where
  "redis_Del ks r =
     (case redis_attempt r of
        (False, r') \<Rightarrow> (Some (RedisFailure ''command failed''), r')
      | (True, r') \<Rightarrow> (None, r'\<lparr>kv := (\<lambda>k. if k \<in> ks then None else kv r' k)\<rparr>))"

text \<open>
  \<^verbatim>\<open>SADD key member\<close>, \<^verbatim>\<open>SMEMBERS key\<close>, and \<^verbatim>\<open>EXPIRE key seconds\<close>, to which the client
  sends the duration in whole seconds (\<^verbatim>\<open>formatSec\<close>); a time to live that is not positive
  leaves a deadline that has passed, and the key is no longer shown.
\<close>

definition redis_SAdd :: "time \<Rightarrow> string \<Rightarrow> string \<Rightarrow> redis \<Rightarrow> error option \<times> redis" where
  "redis_SAdd now k m r =
     (case redis_attempt r of
        (False, r') \<Rightarrow> (Some (RedisFailure ''command failed''), r')
      | (True, r') \<Rightarrow>
          (case redis_lookup now r' k of
             None \<Rightarrow> (None, r'\<lparr>kv := (kv r')(k \<mapsto> (RSet {m}, None))\<rparr>)
           | Some (RSet S, dl) \<Rightarrow> (None, r'\<lparr>kv := (kv r')(k \<mapsto> (RSet (insert m S), dl))\<rparr>)
           | Some (RString b, dl) \<Rightarrow> (Some (RedisFailure ''WRONGTYPE''), r')))"

definition redis_SMembers :: "time \<Rightarrow> string \<Rightarrow> redis \<Rightarrow> (error + string set) \<times> redis" where
  "redis_SMembers now k r =
     (case redis_attempt r of
        (False, r') \<Rightarrow> (Inl (RedisFailure ''command failed''), r')
      | (True, r') \<Rightarrow>
          (case redis_lookup now r' k of
             None \<Rightarrow> (Inr {}, r')
           | Some (RSet S, dl) \<Rightarrow> (Inr S, r')
           | Some (RString b, dl) \<Rightarrow> (Inl (RedisFailure ''WRONGTYPE''), r')))"

definition redis_Expire :: "time \<Rightarrow> string \<Rightarrow> duration \<Rightarrow> redis \<Rightarrow> error option \<times> redis" where
  "redis_Expire now k ttl r =
     (case redis_attempt r of
        (False, r') \<Rightarrow> (Some (RedisFailure ''command failed''), r')
      | (True, r') \<Rightarrow>
          (case redis_lookup now r' k of
             None \<Rightarrow> (None, r')
           | Some (v, dl) \<Rightarrow>
               (None, r'\<lparr>kv := (kv r')(k \<mapsto> (v, Some (now + formatSec ttl * Second)))\<rparr>)))"

section \<open>The session stores (session/store.go, session/redis.go)\<close>

text \<open>
  \<^verbatim>\<open>encoding/json\<close> and \<^verbatim>\<open>encoding/base64\<close> are libraries outside the repository; the stores
  take them as a parameter.  \<^verbatim>\<open>json.Marshal\<close> of a session can fail (a value of \<open>'v\<close> that
  JSON cannot carry), and so can decoding.
\<close>

record 'v codec =
  json_Marshal :: "'v Session \<Rightarrow> error + bytes"
  json_Unmarshal :: "bytes \<Rightarrow> error + 'v Session"
  base64_EncodeToString :: "bytes \<Rightarrow> string"
  base64_DecodeString :: "string \<Rightarrow> error + bytes"

subsection \<open>MemoryStore\<close>

definition MemoryStore_Get ::
  "time \<Rightarrow> string \<Rightarrow> (string \<rightharpoonup> addr) \<Rightarrow> 'v Session list \<Rightarrow> error + addr" where
  "MemoryStore_Get now sid sessions h =
     (case sessions sid of
        None \<Rightarrow> Inl ErrSessionNotFound
      | Some p \<Rightarrow>
          (case deref h p of
             None \<Rightarrow> Inl (Panic ''nil pointer dereference'')
           | Some s \<Rightarrow> if IsExpired now s then Inl ErrSessionExpired else Inr p))"

definition MemoryStore_Set ::
  "addr \<Rightarrow> (string \<rightharpoonup> addr) \<Rightarrow> 'v Session list \<Rightarrow> error option \<times> (string \<rightharpoonup> addr)" where
  "MemoryStore_Set p sessions h =
     (case deref h p of
        None \<Rightarrow> (Some (Panic ''nil pointer dereference''), sessions)
      | Some s \<Rightarrow> (None, sessions(ID s \<mapsto> p)))"

definition MemoryStore_Delete :: "string \<Rightarrow> (string \<rightharpoonup> addr) \<Rightarrow> error option \<times> (string \<rightharpoonup> addr)" where
  "MemoryStore_Delete sid sessions = (None, sessions(sid := None))"

definition MemoryStore_Touch ::
  "time \<Rightarrow> string \<Rightarrow> (string \<rightharpoonup> addr) \<Rightarrow> 'v Session list \<Rightarrow> error option \<times> 'v Session list" where
  "MemoryStore_Touch now sid sessions h =
     (case sessions sid of
        None \<Rightarrow> (Some ErrSessionNotFound, h)
      | Some p \<Rightarrow>
          (case deref h p of
             None \<Rightarrow> (Some (Panic ''nil pointer dereference''), h)
           | Some s \<Rightarrow> (None, store_at p (s\<lparr>UpdatedAt := now\<rparr>) h)))"

text \<open>
  \<^verbatim>\<open>Cleanup\<close> ranges over the table and deletes the entries whose session has expired.  A
  nil pointer in the table makes the loop panic; the table is then returned as it was.
\<close>

definition MemoryStore_Cleanup ::
  "time \<Rightarrow> (string \<rightharpoonup> addr) \<Rightarrow> 'v Session list \<Rightarrow> error option \<times> (string \<rightharpoonup> addr)" where
  "MemoryStore_Cleanup now sessions h =
     (if \<exists>p \<in> ran sessions. deref h p = None
      then (Some (Panic ''nil pointer dereference''), sessions)
      else (None,
            (\<lambda>sid. case sessions sid of
                     None \<Rightarrow> None
                   | Some p \<Rightarrow>
                       (case deref h p of
                          None \<Rightarrow> Some p
                        | Some s \<Rightarrow> if ExpiresAt s < now then None else Some p))))"

subsection \<open>CookieStore\<close>

definition CookieStore_Get ::
  "'v codec \<Rightarrow> time \<Rightarrow> string \<Rightarrow> 'v Session list \<Rightarrow> (error + addr) \<times> 'v Session list" where
  "CookieStore_Get cd now cookieValue h =
     (if cookieValue = [] then (Inl ErrSessionNotFound, h)
      else case base64_DecodeString cd cookieValue of
        Inl e \<Rightarrow> (Inl e, h)
      | Inr data \<Rightarrow>
          (case json_Unmarshal cd data of
             Inl e \<Rightarrow> (Inl e, h)
           | Inr session \<Rightarrow>
               if IsExpired now session then (Inl ErrSessionExpired, h)
               else (case alloc session h of (p, h') \<Rightarrow> (Inr p, h'))))"

definition CookieStore_Set :: "addr \<Rightarrow> error option" where
  "CookieStore_Set p = None"

definition CookieStore_Delete :: "string \<Rightarrow> error option" where
  "CookieStore_Delete sid = None"

definition CookieStore_Touch :: "string \<Rightarrow> error option" where
  "CookieStore_Touch sid = None"

definition CookieStore_Encode :: "'v codec \<Rightarrow> 'v Session \<Rightarrow> error + string" where
  "CookieStore_Encode cd session =
     (case json_Marshal cd session of
        Inl e \<Rightarrow> Inl e
      | Inr data \<Rightarrow> Inr (base64_EncodeToString cd data))"

subsection \<open>RedisStore\<close>

definition RedisStore_Delete :: "string \<Rightarrow> string \<Rightarrow> redis \<Rightarrow> error option \<times> redis" where
  "RedisStore_Delete prefix sid r = redis_Del {prefix @ sid} r"

definition RedisStore_Get ::
  "'v codec \<Rightarrow> time \<Rightarrow> string \<Rightarrow> string \<Rightarrow> redis \<Rightarrow> 'v Session list \<Rightarrow>
   (error + addr) \<times> redis \<times> 'v Session list" where
  "RedisStore_Get cd now prefix sid r h =
     (case redis_Get now (prefix @ sid) r of
        (Inl e, r') \<Rightarrow>
          (if e = RedisNil then (Inl ErrSessionNotFound, r', h) else (Inl e, r', h))
      | (Inr data, r') \<Rightarrow>
          (case json_Unmarshal cd data of
             Inl e \<Rightarrow> (Inl e, r', h)
           | Inr session \<Rightarrow>
               if IsExpired now session
               then (Inl ErrSessionExpired, snd (RedisStore_Delete prefix sid r'), h)
               else (case alloc session h of (p, h') \<Rightarrow> (Inr p, r', h'))))"

definition RedisStore_Set ::
  "'v codec \<Rightarrow> time \<Rightarrow> string \<Rightarrow> addr \<Rightarrow> redis \<Rightarrow> 'v Session list \<Rightarrow> error option \<times> redis" where
  "RedisStore_Set cd now prefix p r h =
     (case deref h p of
        None \<Rightarrow> (Some (Panic ''nil pointer dereference''), r)
      | Some session \<Rightarrow>
          (case json_Marshal cd session of
             Inl e \<Rightarrow> (Some e, r)
           | Inr data \<Rightarrow>
               (let ttl = ExpiresAt session - now
                in if ttl \<le> 0 then (Some ErrSessionExpired, r)
                   else redis_Set now (prefix @ ID session) data ttl r)))"

text \<open>\<^verbatim>\<open>SetWithTTL\<close> stores a session with a time to live of the caller's choice.\<close>

definition RedisStore_SetWithTTL ::
  "'v codec \<Rightarrow> time \<Rightarrow> string \<Rightarrow> addr \<Rightarrow> duration \<Rightarrow> redis \<Rightarrow> 'v Session list \<Rightarrow>
   error option \<times> redis" where
  "RedisStore_SetWithTTL cd now prefix p ttl r h =
     (case deref h p of
        None \<Rightarrow> (Some (Panic ''nil pointer dereference''), r)
      | Some session \<Rightarrow>
          (case json_Marshal cd session of
             Inl e \<Rightarrow> (Some e, r)
           | Inr data \<Rightarrow> redis_Set now (prefix @ ID session) data ttl r))"

text \<open>\<^verbatim>\<open>Touch\<close> is a load and a save of the loaded session.\<close>

definition RedisStore_Touch ::
  "'v codec \<Rightarrow> time \<Rightarrow> string \<Rightarrow> string \<Rightarrow> redis \<Rightarrow> 'v Session list \<Rightarrow>
   error option \<times> redis \<times> 'v Session list" where
  "RedisStore_Touch cd now prefix sid r h =
     (case RedisStore_Get cd now prefix sid r h of
        (Inl e, r', h') \<Rightarrow> (Some e, r', h')
      | (Inr p, r', h') \<Rightarrow>
          (case deref h' p of
             None \<Rightarrow> (Some (Panic ''nil pointer dereference''), r', h')
           | Some session \<Rightarrow>
               (let h'' = store_at p (session\<lparr>UpdatedAt := now\<rparr>) h'
                in case RedisStore_Set cd now prefix p r' h'' of (e, r'') \<Rightarrow> (e, r'', h''))))"

subsection \<open>The Store interface\<close>

text \<open>
  The interface \<^verbatim>\<open>Store\<close> has three implementations; a value of the interface is one of
  them with its state.  The state of the program that the session package acts on is the
  store and the heap of sessions.
\<close>

datatype Store =
    MemoryStore "string \<rightharpoonup> addr"
  | CookieStore duration
  | RedisStore redis string

record 'v sys =
  store :: Store
  heap :: "'v Session list"

definition Store_Get :: "'v codec \<Rightarrow> time \<Rightarrow> string \<Rightarrow> 'v sys \<Rightarrow> (error + addr) \<times> 'v sys" where
  "Store_Get cd now sid w =
     (case store w of
        MemoryStore sessions \<Rightarrow> (MemoryStore_Get now sid sessions (heap w), w)
      | CookieStore maxAge \<Rightarrow>
          (case CookieStore_Get cd now sid (heap w) of (res, h') \<Rightarrow> (res, w\<lparr>heap := h'\<rparr>))
      | RedisStore r prefix \<Rightarrow>
          (case RedisStore_Get cd now prefix sid r (heap w) of
             (res, r', h') \<Rightarrow> (res, \<lparr>store = RedisStore r' prefix, heap = h'\<rparr>)))"

definition Store_Set :: "'v codec \<Rightarrow> time \<Rightarrow> addr \<Rightarrow> 'v sys \<Rightarrow> error option \<times> 'v sys" where
  "Store_Set cd now p w =
     (case store w of
        MemoryStore sessions \<Rightarrow>
          (case MemoryStore_Set p sessions (heap w) of
             (e, sessions') \<Rightarrow> (e, w\<lparr>store := MemoryStore sessions'\<rparr>))
      | CookieStore maxAge \<Rightarrow> (CookieStore_Set p, w)
      | RedisStore r prefix \<Rightarrow>
          (case RedisStore_Set cd now prefix p r (heap w) of
             (e, r') \<Rightarrow> (e, w\<lparr>store := RedisStore r' prefix\<rparr>)))"

definition Store_Delete :: "string \<Rightarrow> 'v sys \<Rightarrow> error option \<times> 'v sys" where
  "Store_Delete sid w =
     (case store w of
        MemoryStore sessions \<Rightarrow>
          (case MemoryStore_Delete sid sessions of
             (e, sessions') \<Rightarrow> (e, w\<lparr>store := MemoryStore sessions'\<rparr>))
      | CookieStore maxAge \<Rightarrow> (CookieStore_Delete sid, w)
      | RedisStore r prefix \<Rightarrow>
          (case RedisStore_Delete prefix sid r of
             (e, r') \<Rightarrow> (e, w\<lparr>store := RedisStore r' prefix\<rparr>)))"

text \<open>\<^verbatim>\<open>Cleanup\<close> does nothing in the cookie store and in the Redis store.\<close>

definition Store_Cleanup :: "time \<Rightarrow> 'v sys \<Rightarrow> error option \<times> 'v sys" where
  "Store_Cleanup now w =
     (case store w of
        MemoryStore sessions \<Rightarrow>
          (case MemoryStore_Cleanup now sessions (heap w) of
             (e, sessions') \<Rightarrow> (e, w\<lparr>store := MemoryStore sessions'\<rparr>))
      | CookieStore maxAge \<Rightarrow> (None, w)
      | RedisStore r prefix \<Rightarrow> (None, w))"

definition Store_Touch :: "'v codec \<Rightarrow> time \<Rightarrow> string \<Rightarrow> 'v sys \<Rightarrow> error option \<times> 'v sys" where
  "Store_Touch cd now sid w =
     (case store w of
        MemoryStore sessions \<Rightarrow>
          (case MemoryStore_Touch now sid sessions (heap w) of
             (e, h') \<Rightarrow> (e, w\<lparr>heap := h'\<rparr>))
      | CookieStore maxAge \<Rightarrow> (CookieStore_Touch sid, w)
      | RedisStore r prefix \<Rightarrow>
          (case RedisStore_Touch cd now prefix sid r (heap w) of
             (e, r', h') \<Rightarrow> (e, \<lparr>store = RedisStore r' prefix, heap = h'\<rparr>)))"

section \<open>The request context and the session middleware (session/middleware.go)\<close>

text \<open>
  \<^verbatim>\<open>goexpress.Context\<close> belongs to another repository.  The code uses its key/value store
  (\<^verbatim>\<open>c.Set\<close>, \<^verbatim>\<open>c.Get\<close>), the cookies of the request (\<^verbatim>\<open>c.GetCookie\<close>), the cookies it adds to
  the response (\<^verbatim>\<open>c.Cookie\<close>), the method and path of the request, and the response it writes
  (\<^verbatim>\<open>c.SetHeader\<close>, \<^verbatim>\<open>c.Status\<close>, \<^verbatim>\<open>c.Send\<close>).  A value kept in the context is of type
  \<^verbatim>\<open>interface{}\<close>: a \<^verbatim>\<open>*Session\<close>, a string, or something else.
\<close>

datatype cvalue = SessionPtr addr | StringVal string | OtherVal string

text \<open>
  The \<^verbatim>\<open>MaxAge\<close> of a cookie is a number of seconds.  The code either writes the number
  or computes it as \<^verbatim>\<open>int(d.Seconds())\<close>, a conversion through floating point that is not
  modelled: the cookie then keeps the duration \<open>d\<close> it is computed from.
\<close>

datatype max_age = MaxAgeSeconds int | MaxAgeOfDuration duration

record http_Cookie =
  Name :: string
  Value :: string
  Path :: string
  Domain :: string
  CookieMaxAge :: max_age
  CookieSecure :: bool
  CookieHttpOnly :: bool
  CookieSameSite :: int

record Context =
  entries :: "string \<rightharpoonup> cvalue"
  request_cookies :: "string \<rightharpoonup> string"
  response_cookies :: "http_Cookie list"
  request_method :: string
  request_path :: string
  response_status :: int
  response_headers :: "string \<rightharpoonup> string"
  response_body :: "bytes option"

definition Context_Set :: "string \<Rightarrow> cvalue \<Rightarrow> Context \<Rightarrow> Context" where
  "Context_Set key val c = c\<lparr>entries := (entries c)(key \<mapsto> val)\<rparr>"

definition Context_Get :: "string \<Rightarrow> Context \<Rightarrow> cvalue option" where
  "Context_Get key c = entries c key"

definition Context_Cookie :: "http_Cookie \<Rightarrow> Context \<Rightarrow> Context" where
  "Context_Cookie ck c = c\<lparr>response_cookies := response_cookies c @ [ck]\<rparr>"

record Config =
  CookieName :: string
  CookiePath :: string
  CookieDomain :: string
  MaxAge :: duration
  Secure :: bool
  HttpOnly :: bool
  SameSite :: int
  ContextKey :: string

definition SameSiteLaxMode :: int where
  "SameSiteLaxMode = 2"

text \<open>
  \<^verbatim>\<open>DefaultConfig(store)\<close>; the store itself is part of the state \<open>'v sys\<close>, not of this
  record.
\<close>

definition DefaultConfig :: Config where
  "DefaultConfig =
     \<lparr>CookieName = ''session_id'', CookiePath = ''/'', CookieDomain = [],
      MaxAge = 24 * Hour, Secure = False, HttpOnly = True, SameSite = SameSiteLaxMode,
      ContextKey = ''session''\<rparr>"

text \<open>The defaults \<^verbatim>\<open>Middleware\<close> fills in before it builds the handler.\<close>

definition with_defaults :: "Config \<Rightarrow> Config" where
  "with_defaults config =
     (let c1 = (if CookieName config = [] then config\<lparr>CookieName := ''session_id''\<rparr> else config);
          c2 = (if ContextKey c1 = [] then c1\<lparr>ContextKey := ''session''\<rparr> else c1)
      in if MaxAge c2 = 0 then c2\<lparr>MaxAge := 24 * Hour\<rparr> else c2)"

definition session_cookie :: "Config \<Rightarrow> string \<Rightarrow> http_Cookie" where
  "session_cookie config v =
     \<lparr>Name = CookieName config, Value = v, Path = CookiePath config,
      Domain = CookieDomain config, CookieMaxAge = MaxAgeOfDuration (MaxAge config),
      CookieSecure = Secure config, CookieHttpOnly = HttpOnly config,
      CookieSameSite = SameSite config\<rparr>"

text \<open>
  A handler acts on the context and on the state; it returns its error, if any.
\<close>

type_synonym 'v handler = "Context \<Rightarrow> 'v sys \<Rightarrow> error option \<times> Context \<times> 'v sys"

text \<open>
  The first step of the middleware: the session named by the cookie, if the store has it.
  Whatever error the store's \<^verbatim>\<open>Get\<close> returns, the session pointer is nil afterwards.
\<close>

definition Middleware_lookup ::
  "'v codec \<Rightarrow> Config \<Rightarrow> time \<Rightarrow> Context \<Rightarrow> 'v sys \<Rightarrow> addr option \<times> 'v sys" where
  "Middleware_lookup cd config now c w =
     (case request_cookies c (CookieName config) of
        None \<Rightarrow> (None, w)
      | Some v \<Rightarrow>
          if v = [] then (None, w)
          else (case Store_Get cd now v w of
                  (Inl e, w') \<Rightarrow> (None, w')
                | (Inr p, w') \<Rightarrow> (Some p, w')))"

text \<open>
  The middleware up to the call of the wrapped handler: the session is resolved from the
  cookie or created, and put into the context.  \<open>config\<close> is the configuration with the
  defaults filled in; \<open>sid\<close> is the identifier a new session would get.
\<close>

definition Middleware_resolve ::
  "'v codec \<Rightarrow> Config \<Rightarrow> time \<Rightarrow> string \<Rightarrow> Context \<Rightarrow> 'v sys \<Rightarrow> (error + Context) \<times> 'v sys" where
  "Middleware_resolve cd config now sid c w =
     (case Middleware_lookup cd config now c w of
        (None, w1) \<Rightarrow>
          (case alloc (NewSession now sid (MaxAge config)) (heap w1) of
             (p, h') \<Rightarrow>
               (case Store_Set cd now p (w1\<lparr>heap := h'\<rparr>) of
                  (Some e, w2) \<Rightarrow> (Inl e, w2)
                | (None, w2) \<Rightarrow>
                    (Inr (Context_Set ''session_id'' (StringVal sid)
                            (Context_Set (ContextKey config) (SessionPtr p) c)), w2)))
      | (Some p, w1) \<Rightarrow>
          (case deref (heap w1) p of
             None \<Rightarrow> (Inl (Panic ''nil pointer dereference''), w1)
           | Some session \<Rightarrow>
               (case Store_Touch cd now (ID session) w1 of
                  (e, w2) \<Rightarrow>
                    (Inr (Context_Set ''session_id'' (StringVal (ID session))
                            (Context_Set (ContextKey config) (SessionPtr p) c)), w2))))"

text \<open>
  The middleware after the wrapped handler has returned \<open>err\<close>: the session found in the
  context under the configured key gets a new expiry, is saved, and the cookie is set.
\<close>

definition Middleware_persist ::
  "'v codec \<Rightarrow> Config \<Rightarrow> time \<Rightarrow> error option \<Rightarrow> Context \<Rightarrow> 'v sys \<Rightarrow>
   error option \<times> Context \<times> 'v sys" where
  "Middleware_persist cd config now err c w =
     (case Context_Get (ContextKey config) c of
        Some (SessionPtr p) \<Rightarrow>
          (case deref (heap w) p of
             None \<Rightarrow> (Some (Panic ''nil pointer dereference''), c, w)
           | Some sess \<Rightarrow>
               (let w1 = w\<lparr>heap := store_at p (sess\<lparr>ExpiresAt := now + MaxAge config\<rparr>) (heap w)\<rparr>
                in case Store_Set cd now p w1 of
                     (Some e, w2) \<Rightarrow> (Some e, c, w2)
                   | (None, w2) \<Rightarrow> (err, Context_Cookie (session_cookie config (ID sess)) c, w2)))
      | _ \<Rightarrow> (err, c, w))"

definition Middleware ::
  "'v codec \<Rightarrow> Config \<Rightarrow> time \<Rightarrow> time \<Rightarrow> string \<Rightarrow> 'v handler \<Rightarrow> 'v handler" where
  "Middleware cd config0 now now' sid next c w =
     (let config = with_defaults config0
      in case Middleware_resolve cd config now sid c w of
           (Inl e, w1) \<Rightarrow> (Some e, c, w1)
         | (Inr c1, w1) \<Rightarrow>
             (case next c1 w1 of
                (err, c2, w2) \<Rightarrow> Middleware_persist cd config now' err c2 w2))"

text \<open>\<^verbatim>\<open>GetSession\<close> reads the context under the key \<^verbatim>\<open>"session"\<close>.\<close>

definition GetSession :: "Context \<Rightarrow> error + addr" where
  "GetSession c =
     (case Context_Get ''session'' c of
        Some (SessionPtr p) \<Rightarrow> Inr p
      | _ \<Rightarrow> Inl ErrSessionNotFound)"

definition DestroySession :: "Config \<Rightarrow> Context \<Rightarrow> 'v sys \<Rightarrow> error option \<times> Context \<times> 'v sys" where
  "DestroySession config c w =
     (case GetSession c of
        Inl e \<Rightarrow> (Some e, c, w)
      | Inr p \<Rightarrow>
          (case deref (heap w) p of
             None \<Rightarrow> (Some (Panic ''nil pointer dereference''), c, w)
           | Some session \<Rightarrow>
               (case Store_Delete (ID session) w of
                  (Some e, w') \<Rightarrow> (Some e, c, w')
                | (None, w') \<Rightarrow>
                    (None,
                     Context_Cookie
                       \<lparr>Name = CookieName config, Value = [], Path = CookiePath config,
                        Domain = [], CookieMaxAge = MaxAgeSeconds (- 1), CookieSecure = False,
                        CookieHttpOnly = True, CookieSameSite = 0\<rparr> c,
                     w'))))"

text \<open>
  \<^verbatim>\<open>RegenerateSession\<close> in two parts.  The first creates the new session with the old
  session's data and saves it; it returns the error of the save, or the two pointers.
  The second deletes the old session, updates the context and sets the cookie.  \<open>now\<close> is
  the clock as \<^verbatim>\<open>NewSession\<close> reads it, \<open>now'\<close> as the store's \<^verbatim>\<open>Set\<close> reads it.
\<close>

definition Regenerate_save ::
  "'v codec \<Rightarrow> Config \<Rightarrow> time \<Rightarrow> time \<Rightarrow> string \<Rightarrow> Context \<Rightarrow> 'v sys \<Rightarrow>
   (error + (addr \<times> addr)) \<times> 'v sys" where
  "Regenerate_save cd config now now' sid c w =
     (case GetSession c of
        Inl e \<Rightarrow> (Inl e, w)
      | Inr po \<Rightarrow>
          (case deref (heap w) po of
             None \<Rightarrow> (Inl (Panic ''nil pointer dereference''), w)
           | Some oldSession \<Rightarrow>
               (case alloc ((NewSession now sid (MaxAge config))\<lparr>Data := Data oldSession\<rparr>) (heap w) of
                  (pn, h') \<Rightarrow>
                    (case Store_Set cd now' pn (w\<lparr>heap := h'\<rparr>) of
                       (Some e, w') \<Rightarrow> (Inl e, w')
                     | (None, w') \<Rightarrow> (Inr (po, pn), w')))))"

definition Regenerate_switch ::
  "Config \<Rightarrow> string \<Rightarrow> string \<Rightarrow> addr \<Rightarrow> Context \<Rightarrow> 'v sys \<Rightarrow> Context \<times> 'v sys" where
  "Regenerate_switch config oldID newID pn c w =
     (case Store_Delete oldID w of
        (e, w') \<Rightarrow>
          (Context_Cookie (session_cookie config newID)
             (Context_Set ''session_id'' (StringVal newID)
                (Context_Set (ContextKey config) (SessionPtr pn) c)), w'))"

definition RegenerateSession ::
  "'v codec \<Rightarrow> Config \<Rightarrow> time \<Rightarrow> time \<Rightarrow> string \<Rightarrow> Context \<Rightarrow> 'v sys \<Rightarrow>
   error option \<times> Context \<times> 'v sys" where
  "RegenerateSession cd config now now' sid c w =
     (case Regenerate_save cd config now now' sid c w of
        (Inl e, w') \<Rightarrow> (Some e, c, w')
      | (Inr (po, pn), w') \<Rightarrow>
          (case deref (heap w') po of
             None \<Rightarrow> (Some (Panic ''nil pointer dereference''), c, w')
           | Some oldSession \<Rightarrow>
               (case Regenerate_switch config (ID oldSession) sid pn c w' of
                  (c', w'') \<Rightarrow> (None, c', w''))))"

text \<open>Flash messages.\<close>

definition Flash ::
  "time \<Rightarrow> Context \<Rightarrow> string \<Rightarrow> 'v \<Rightarrow> 'v Session list \<Rightarrow> error option \<times> 'v Session list" where
  "Flash now c key val h =
     (case GetSession c of
        Inl e \<Rightarrow> (Some e, h)
      | Inr p \<Rightarrow>
          (case deref h p of
             None \<Rightarrow> (Some (Panic ''nil pointer dereference''), h)
           | Some session \<Rightarrow>
               (case Session_Set now (''_flash_'' @ key) val session of
                  Inl e \<Rightarrow> (Some e, h)
                | Inr session' \<Rightarrow> (None, store_at p session' h))))"

text \<open>
  \<^verbatim>\<open>GetFlash\<close> returns \<^verbatim>\<open>(value, ok)\<close>: \<open>Inr (Some v)\<close> is \<^verbatim>\<open>(v, true)\<close> and \<open>Inr None\<close> is
  \<^verbatim>\<open>(nil, false)\<close>; \<open>Inl\<close> is the panic of a nil session pointer.
\<close>

definition GetFlash ::
  "time \<Rightarrow> Context \<Rightarrow> string \<Rightarrow> 'v Session list \<Rightarrow> (error + 'v option) \<times> 'v Session list" where
  "GetFlash now c key h =
     (case GetSession c of
        Inl e \<Rightarrow> (Inr None, h)
      | Inr p \<Rightarrow>
          (case deref h p of
             None \<Rightarrow> (Inl (Panic ''nil pointer dereference''), h)
           | Some session \<Rightarrow>
               (case Session_Get (''_flash_'' @ key) session of
                  None \<Rightarrow> (Inr None, h)
                | Some v \<Rightarrow>
                    (Inr (Some v),
                     store_at p (Session_Delete now (''_flash_'' @ key) session) h))))"

section \<open>The cache store (package cache: RedisCache, TaggedCache)\<close>

text \<open>
  \<^verbatim>\<open>json.Marshal(value)\<close> and \<^verbatim>\<open>json.Unmarshal(data, dest)\<close> for the values a cache holds, of
  type \<open>'a\<close>; both can fail.
\<close>

record 'a vcodec =
  Marshal :: "'a \<Rightarrow> error + bytes"
  Unmarshal :: "bytes \<Rightarrow> error + 'a"

record RedisCache =
  cache_client :: redis
  cache_prefix :: string

text \<open>
  \<^verbatim>\<open>Get(key, dest)\<close>: the decoded value stands for what \<^verbatim>\<open>dest\<close> holds after a nil return.
\<close>

definition RedisCache_Get ::
  "'a vcodec \<Rightarrow> time \<Rightarrow> string \<Rightarrow> RedisCache \<Rightarrow> (error + 'a) \<times> RedisCache" where
  "RedisCache_Get vc now key rc =
     (case redis_Get now (cache_prefix rc @ key) (cache_client rc) of
        (Inl e, r') \<Rightarrow>
          (if e = RedisNil then (Inl ErrCacheMiss, rc\<lparr>cache_client := r'\<rparr>)
           else (Inl e, rc\<lparr>cache_client := r'\<rparr>))
      | (Inr data, r') \<Rightarrow> (Unmarshal vc data, rc\<lparr>cache_client := r'\<rparr>))"

definition RedisCache_Set ::
  "'a vcodec \<Rightarrow> time \<Rightarrow> string \<Rightarrow> 'a \<Rightarrow> duration \<Rightarrow> RedisCache \<Rightarrow> error option \<times> RedisCache" where
  "RedisCache_Set vc now key val ttl rc =
     (case Marshal vc val of
        Inl e \<Rightarrow> (Some e, rc)
      | Inr data \<Rightarrow>
          (case redis_Set now (cache_prefix rc @ key) data ttl (cache_client rc) of
             (e, r') \<Rightarrow> (e, rc\<lparr>cache_client := r'\<rparr>)))"

definition RedisCache_Delete :: "string \<Rightarrow> RedisCache \<Rightarrow> error option \<times> RedisCache" where
  "RedisCache_Delete key rc =
     (case redis_Del {cache_prefix rc @ key} (cache_client rc) of
        (e, r') \<Rightarrow> (e, rc\<lparr>cache_client := r'\<rparr>))"

text \<open>
  \<^verbatim>\<open>Remember(key, ttl, fn, dest)\<close>.  The function \<^verbatim>\<open>fn\<close> is a closure: it acts on the cache
  and on whatever else it can reach (\<open>'e\<close>), and returns a value or an error.  \<open>now\<close> is the
  instant of the lookup, \<open>now'\<close> the instant of the store.
\<close>

type_synonym ('a, 'e) compute = "RedisCache \<Rightarrow> 'e \<Rightarrow> (error + 'a) \<times> RedisCache \<times> 'e"

definition Remember ::
  "'a vcodec \<Rightarrow> time \<Rightarrow> time \<Rightarrow> string \<Rightarrow> duration \<Rightarrow> ('a, 'e) compute \<Rightarrow> RedisCache \<Rightarrow> 'e \<Rightarrow>
   (error + 'a) \<times> RedisCache \<times> 'e" where
  "Remember vc now now' key ttl fn rc ext =
     (case RedisCache_Get vc now key rc of
        (Inr dest, rc1) \<Rightarrow> (Inr dest, rc1, ext)
      | (Inl err, rc1) \<Rightarrow>
          if err \<noteq> ErrCacheMiss then (Inl err, rc1, ext)
          else (case fn rc1 ext of
                  (Inl err, rc2, ext') \<Rightarrow> (Inl err, rc2, ext')
                | (Inr val, rc2, ext') \<Rightarrow>
                    (case RedisCache_Set vc now' key val ttl rc2 of
                       (Some err, rc3) \<Rightarrow> (Inl err, rc3, ext')
                     | (None, rc3) \<Rightarrow>
                         (case Marshal vc val of
                            Inl err \<Rightarrow> (Inl err, rc3, ext')
                          | Inr data \<Rightarrow> (Unmarshal vc data, rc3, ext')))))"

text \<open>
  \<^verbatim>\<open>Tags(tags...)\<close>: the tagged cache is the list of tags and the prefix of the tag keys; the
  cache it points to is the state its methods act on.
\<close>

record TaggedCache =
  tags :: "string list"
  tag_prefix :: string

definition Tags :: "string list \<Rightarrow> TaggedCache" where
  "Tags ts = \<lparr>tags = ts, tag_prefix = ''tag:''\<rparr>"

text \<open>
  The loop of \<^verbatim>\<open>TaggedCache.Set\<close> over the tags; the results of \<^verbatim>\<open>SAdd\<close> and \<^verbatim>\<open>Expire\<close> are
  dropped.
\<close>

fun Set_tags :: "time \<Rightarrow> string \<Rightarrow> string \<Rightarrow> duration \<Rightarrow> string list \<Rightarrow> redis \<Rightarrow> redis" where
  "Set_tags now tp key ttl [] r = r"
| "Set_tags now tp key ttl (tag # rest) r =
     (let r1 = snd (redis_SAdd now (tp @ tag) key r);
          r2 = (if 0 < ttl then snd (redis_Expire now (tp @ tag) ttl r1) else r1)
      in Set_tags now tp key ttl rest r2)"

definition TaggedCache_Set ::
  "'a vcodec \<Rightarrow> time \<Rightarrow> TaggedCache \<Rightarrow> string \<Rightarrow> 'a \<Rightarrow> duration \<Rightarrow> RedisCache \<Rightarrow>
   error option \<times> RedisCache" where
  "TaggedCache_Set vc now t key val ttl rc =
     (case RedisCache_Set vc now key val ttl rc of
        (Some err, rc1) \<Rightarrow> (Some err, rc1)
      | (None, rc1) \<Rightarrow>
          (None, rc1\<lparr>cache_client := Set_tags now (tag_prefix t) key ttl (tags t) (cache_client rc1)\<rparr>))"

text \<open>
  The loop of \<^verbatim>\<open>TaggedCache.Flush\<close> over the tags: the members of the tag's set are read
  (an error ends the flush), the keys of the members are deleted in one command when there
  is a member, then the tag key; the results of both \<^verbatim>\<open>Del\<close> are dropped.
\<close>

fun Flush_tags :: "time \<Rightarrow> string \<Rightarrow> string \<Rightarrow> string list \<Rightarrow> redis \<Rightarrow> error option \<times> redis" where
  "Flush_tags now cp tp [] r = (None, r)"
| "Flush_tags now cp tp (tag # rest) r =
     (case redis_SMembers now (tp @ tag) r of
        (Inl err, r1) \<Rightarrow> (Some err, r1)
      | (Inr members, r1) \<Rightarrow>
          (let r2 = (if members \<noteq> {} then snd (redis_Del ((\<lambda>key. cp @ key) ` members) r1) else r1);
               r3 = snd (redis_Del {tp @ tag} r2)
           in Flush_tags now cp tp rest r3))"

definition TaggedCache_Flush :: "time \<Rightarrow> TaggedCache \<Rightarrow> RedisCache \<Rightarrow> error option \<times> RedisCache" where
  "TaggedCache_Flush now t rc =
     (case Flush_tags now (cache_prefix rc) (tag_prefix t) (tags t) (cache_client rc) of
        (e, r') \<Rightarrow> (e, rc\<lparr>cache_client := r'\<rparr>))"

section \<open>The cache middleware (cache/middleware.go)\<close>

record CachedResponse =
  Status :: int
  Headers :: "string \<rightharpoonup> string"
  Body :: "bytes option"

text \<open>
  The recorder has a pointer to the context and three fields of its own; \<open>None\<close> is the
  nil body.
\<close>

record responseRecorder =
  status :: int
  headers :: "string \<rightharpoonup> string"
  body :: "bytes option"

text \<open>
  \<^verbatim>\<open>KeyFunc\<close>, \<^verbatim>\<open>SkipFunc\<close> and \<^verbatim>\<open>OnlyStatus\<close> may be nil (\<open>None\<close>); the cache is the state.
\<close>

record CacheConfig =
  TTL :: duration
  KeyFunc :: "(Context \<Rightarrow> string) option"
  SkipFunc :: "(Context \<Rightarrow> bool) option"
  OnlyStatus :: "int list option"

definition default_KeyFunc :: "Context \<Rightarrow> string" where
  "default_KeyFunc c = request_method c @ '':'' @ request_path c"

definition DefaultCacheConfig :: CacheConfig where
  "DefaultCacheConfig =
     \<lparr>TTL = 300 * Second, KeyFunc = Some default_KeyFunc, SkipFunc = None,
      OnlyStatus = Some [200]\<rparr>"

definition Context_SetHeader :: "string \<Rightarrow> string \<Rightarrow> Context \<Rightarrow> Context" where
  "Context_SetHeader k v c = c\<lparr>response_headers := (response_headers c)(k \<mapsto> v)\<rparr>"

definition Context_Status :: "int \<Rightarrow> Context \<Rightarrow> Context" where
  "Context_Status code c = c\<lparr>response_status := code\<rparr>"

definition Context_Send :: "bytes option \<Rightarrow> Context \<Rightarrow> error option \<times> Context" where
  "Context_Send b c = (None, c\<lparr>response_body := b\<rparr>)"

text \<open>
  The replay of a cached response: every stored header is set, then the status, then the
  body is sent.
\<close>

definition replay :: "CachedResponse \<Rightarrow> Context \<Rightarrow> error option \<times> Context" where
  "replay cached c =
     Context_Send (Body cached)
       (Context_Status (Status cached)
          (c\<lparr>response_headers := response_headers c ++ Headers cached\<rparr>))"

text \<open>
  A handler wrapped by the cache middleware acts on the context, on the cache and on
  whatever else it can reach (\<open>'x\<close>).
\<close>

type_synonym 'x chandler =
  "Context \<Rightarrow> RedisCache \<Rightarrow> 'x \<Rightarrow> error option \<times> Context \<times> RedisCache \<times> 'x"

text \<open>
  \<^verbatim>\<open>Middleware(config)(next)(c)\<close> of package cache.  On a miss the code builds a recorder
  whose \<^verbatim>\<open>Context\<close> field is \<open>c\<close> and calls \<^verbatim>\<open>next(recorder.Context)\<close>: the handler
  receives the context itself, and no statement assigns to the recorder's \<^verbatim>\<open>status\<close>,
  \<^verbatim>\<open>headers\<close> or \<^verbatim>\<open>body\<close>, so after the call they are what the constructor made them.
\<close>

definition cache_Middleware ::
  "CachedResponse vcodec \<Rightarrow> CacheConfig \<Rightarrow> time \<Rightarrow> time \<Rightarrow> 'x chandler \<Rightarrow> 'x chandler" where
  "cache_Middleware vc config0 now now' next c rc x =
     (let keyFunc = (case KeyFunc config0 of None \<Rightarrow> default_KeyFunc | Some f \<Rightarrow> f);
          onlyStatus = (case OnlyStatus config0 of None \<Rightarrow> [200] | Some l \<Rightarrow> l)
      in if (case SkipFunc config0 of None \<Rightarrow> False | Some skip \<Rightarrow> skip c) then next c rc x
         else if request_method c \<noteq> ''GET'' \<and> request_method c \<noteq> ''HEAD'' then next c rc x
         else
           (let key = keyFunc c
            in case RedisCache_Get vc now key rc of
                 (Inr cached, rc1) \<Rightarrow>
                   (case replay cached c of (e, c') \<Rightarrow> (e, c', rc1, x))
               | (Inl e, rc1) \<Rightarrow>
                   (let recorder = \<lparr>status = 0, headers = Map.empty, body = None\<rparr>
                    in case next c rc1 x of
                         (Some err, c', rc2, x') \<Rightarrow> (Some err, c', rc2, x')
                       | (None, c', rc2, x') \<Rightarrow>
                           (let shouldCache = (status recorder \<in> set onlyStatus)
                            in if shouldCache \<and> body recorder \<noteq> None
                               then
                                 (let cached = \<lparr>Status = status recorder,
                                                Headers = headers recorder,
                                                Body = body recorder\<rparr>
                                  in (None, c',
                                      snd (RedisCache_Set vc now' key cached (TTL config0) rc2), x'))
                               else (None, c', rc2, x')))))"

section \<open>Observations and scenarios\<close>

text \<open>
  Whether a store holds a record under an identifier at an instant.  The memory store holds
  what its table maps; the Redis store what the server shows under the prefixed key; the
  cookie store holds nothing.
\<close>

definition Store_has :: "time \<Rightarrow> Store \<Rightarrow> string \<Rightarrow> bool" where
  "Store_has now st sid =
     (case st of
        MemoryStore sessions \<Rightarrow> sessions sid \<noteq> None
      | CookieStore maxAge \<Rightarrow> False
      | RedisStore r prefix \<Rightarrow> redis_lookup now r (prefix @ sid) \<noteq> None)"

definition keeps_records :: "Store \<Rightarrow> bool" where
  "keeps_records st = (case st of CookieStore maxAge \<Rightarrow> False | _ \<Rightarrow> True)"

text \<open>
  \<^verbatim>\<open>Set(session)\<close> at \<open>now\<close> followed by \<^verbatim>\<open>Get(session.ID)\<close> at \<open>now'\<close>: the session that the
  returned pointer leads to, or the first error.
\<close>

definition save_then_load :: "'v codec \<Rightarrow> time \<Rightarrow> time \<Rightarrow> addr \<Rightarrow> 'v sys \<Rightarrow> error + 'v Session" where
  "save_then_load cd now now' p w =
     (case deref (heap w) p of
        None \<Rightarrow> Inl (Panic ''nil pointer dereference'')
      | Some s \<Rightarrow>
          (case Store_Set cd now p w of
             (Some e, w1) \<Rightarrow> Inl e
           | (None, w1) \<Rightarrow>
               (case Store_Get cd now' (ID s) w1 of
                  (Inl e, w2) \<Rightarrow> Inl e
                | (Inr q, w2) \<Rightarrow>
                    (case deref (heap w2) q of
                       None \<Rightarrow> Inl (Panic ''nil pointer dereference'')
                     | Some s' \<Rightarrow> Inr s'))))"

text \<open>The round trip succeeds and gives back the same \<^verbatim>\<open>Data\<close>.\<close>

definition roundtrip_ok :: "'v codec \<Rightarrow> time \<Rightarrow> time \<Rightarrow> addr \<Rightarrow> 'v sys \<Rightarrow> bool" where
  "roundtrip_ok cd now now' p w =
     (case deref (heap w) p of
        None \<Rightarrow> False
      | Some s \<Rightarrow>
          (case save_then_load cd now now' p w of
             Inl e \<Rightarrow> False
           | Inr s' \<Rightarrow> Data s' = Data s))"

text \<open>
  \<^verbatim>\<open>CookieStore.Encode(session)\<close> followed by \<^verbatim>\<open>Get\<close> of the encoded value at \<open>now'\<close>.
\<close>

definition encode_then_load :: "'v codec \<Rightarrow> time \<Rightarrow> 'v Session \<Rightarrow> 'v sys \<Rightarrow> error + 'v Session" where
  "encode_then_load cd now' s w =
     (case CookieStore_Encode cd s of
        Inl e \<Rightarrow> Inl e
      | Inr v \<Rightarrow>
          (case Store_Get cd now' v w of
             (Inl e, w2) \<Rightarrow> Inl e
           | (Inr q, w2) \<Rightarrow>
               (case deref (heap w2) q of
                  None \<Rightarrow> Inl (Panic ''nil pointer dereference'')
                | Some s' \<Rightarrow> Inr s')))"


text \<open>
  A compute function that counts its own invocations: the counter is the first component
  of what the function can reach.
\<close>

definition counted :: "('a, 'e) compute \<Rightarrow> ('a, nat \<times> 'e) compute" where
  "counted fn rc ne =
     (case fn rc (snd ne) of (res, rc', ext') \<Rightarrow> (res, rc', (Suc (fst ne), ext')))"

text \<open>
  The flush as the specification words it, on the key space of the server: for every tag
  in turn, every value key that the tag's index set names is removed, and the index entry
  itself.  The index set of a tag is the set its key holds, as the server shows it.
\<close>

definition index_set ::
  "time \<Rightarrow> (string \<rightharpoonup> (rvalue \<times> time option)) \<Rightarrow> string \<Rightarrow> string set" where
  "index_set now m k =
     (case m k of
        Some (RSet S, dl) \<Rightarrow> if live now dl then S else {}
      | _ \<Rightarrow> {})"

fun flush_spec ::
  "time \<Rightarrow> string \<Rightarrow> string \<Rightarrow> string list \<Rightarrow> (string \<rightharpoonup> (rvalue \<times> time option)) \<Rightarrow>
   (string \<rightharpoonup> (rvalue \<times> time option))" where
  "flush_spec now cp tp [] m = m"
| "flush_spec now cp tp (tag # rest) m =
     flush_spec now cp tp rest
       (\<lambda>k. if k \<in> (\<lambda>key. cp @ key) ` index_set now m (tp @ tag) \<or> k = tp @ tag then None
            else m k)"

section \<open>Example data\<close>

text \<open>
  Values a session can hold in the examples: a string; a channel, which \<^verbatim>\<open>encoding/json\<close>
  refuses to encode; an \<^verbatim>\<open>int\<close>; and a \<^verbatim>\<open>float64\<close> that holds a whole number, which is what
  \<^verbatim>\<open>encoding/json\<close> makes of a JSON number that it decodes into an \<^verbatim>\<open>interface{}\<close>.
\<close>

datatype gvalue = GString string | GChan | GInt int | GFloat64 int

definition demo_session :: "gvalue Session" where
  "demo_session =
     \<lparr>ID = ''abc'', Data = Some [''user'' \<mapsto> GString ''ann''], CreatedAt = 100,
      ExpiresAt = 160, UpdatedAt = 100\<rparr>"

definition other_session :: "gvalue Session" where
  "other_session =
     \<lparr>ID = ''abc'', Data = Some [''user'' \<mapsto> GString ''bob''], CreatedAt = 100,
      ExpiresAt = 160, UpdatedAt = 100\<rparr>"

definition chan_session :: "gvalue Session" where
  "chan_session =
     \<lparr>ID = ''chan'', Data = Some [''done'' \<mapsto> GChan], CreatedAt = 100,
      ExpiresAt = 160, UpdatedAt = 100\<rparr>"

definition demo_bytes :: bytes where
  "demo_bytes = ''{id:abc,data:{user:ann},created_at:100,expires_at:160,updated_at:100}''"

text \<open>\<open>demo_cookie\<close> is the base64 encoding (standard alphabet) of \<open>demo_bytes\<close>.\<close>

definition demo_cookie :: string where
  "demo_cookie =
     ''e2lkOmFiYyxkYXRhOnt1c2VyOmFubn0sY3JlYXRlZF9hdDoxMDAsZXhwaXJlc19hdDoxNjAsdXBkYXRlZF9hdDoxMDB9''"

text \<open>
  The codec of the examples knows one session, \<open>demo_session\<close>, the text \<open>demo_bytes\<close> that
  stands for its JSON encoding, and the base64 encoding of that text.  It encodes and
  decodes these and refuses everything else, as \<^verbatim>\<open>json.Marshal\<close> refuses \<open>chan_session\<close> and
  as \<^verbatim>\<open>base64.StdEncoding.DecodeString\<close> refuses the three characters of an identifier
  such as \<^verbatim>\<open>abc\<close>.
\<close>

definition demo_codec :: "gvalue codec" where
  "demo_codec =
     \<lparr>json_Marshal = (\<lambda>s. if s = demo_session then Inr demo_bytes
                            else Inl (CodecError ''json: unsupported type'')),
      json_Unmarshal = (\<lambda>b. if b = demo_bytes then Inr demo_session
                              else Inl (CodecError ''json: invalid input'')),
      base64_EncodeToString = (\<lambda>b. if b = demo_bytes then demo_cookie else []),
      base64_DecodeString = (\<lambda>v. if v = demo_cookie then Inr demo_bytes
                                   else Inl (CodecError ''illegal base64 data''))\<rparr>"

text \<open>
  A session that counts visits with an \<^verbatim>\<open>int\<close> and lives for an hour, and what the JSON
  text of it decodes to; a session with 1.9 milliseconds to live at the instant 900000.
\<close>

definition visits_session :: "gvalue Session" where
  "visits_session =
     \<lparr>ID = ''cnt'', Data = Some [''visits'' \<mapsto> GInt 7], CreatedAt = 100,
      ExpiresAt = 100 + Hour, UpdatedAt = 100\<rparr>"

definition visits_decoded :: "gvalue Session" where
  "visits_decoded =
     \<lparr>ID = ''cnt'', Data = Some [''visits'' \<mapsto> GFloat64 7], CreatedAt = 100,
      ExpiresAt = 100 + Hour, UpdatedAt = 100\<rparr>"

definition visits_bytes :: bytes where
  "visits_bytes = ''{id:cnt,data:{visits:7},created_at:100,expires_at:3600000000100,updated_at:100}''"

definition short_session :: "gvalue Session" where
  "short_session =
     \<lparr>ID = ''short'', Data = Some [''user'' \<mapsto> GString ''ann''], CreatedAt = 900000,
      ExpiresAt = 2800000, UpdatedAt = 900000\<rparr>"

definition short_bytes :: bytes where
  "short_bytes = ''{id:short,data:{user:ann},created_at:900000,expires_at:2800000,updated_at:900000}''"

text \<open>
  A second codec for the examples, which knows these two sessions: it encodes
  \<open>visits_session\<close> and decodes the text to \<open>visits_decoded\<close>, as \<^verbatim>\<open>encoding/json\<close> does with
  a number; it encodes and decodes \<open>short_session\<close>; it refuses everything else.
\<close>

definition wire_codec :: "gvalue codec" where
  "wire_codec =
     \<lparr>json_Marshal = (\<lambda>s. if s = visits_session then Inr visits_bytes
                            else if s = short_session then Inr short_bytes
                            else Inl (CodecError ''json: unsupported type'')),
      json_Unmarshal = (\<lambda>b. if b = visits_bytes then Inr visits_decoded
                              else if b = short_bytes then Inr short_session
                              else Inl (CodecError ''json: invalid input'')),
      base64_EncodeToString = (\<lambda>b. []),
      base64_DecodeString = (\<lambda>v. Inl (CodecError ''illegal base64 data''))\<rparr>"

definition redis0 :: redis where
  "redis0 = \<lparr>kv = Map.empty, faults = []\<rparr>"

definition memory0 :: "gvalue sys" where
  "memory0 = \<lparr>store = MemoryStore Map.empty, heap = []\<rparr>"

definition request0 :: Context where
  "request0 =
     \<lparr>entries = Map.empty, request_cookies = Map.empty, response_cookies = [],
      request_method = ''GET'', request_path = ''/hello'', response_status = 0,
      response_headers = Map.empty, response_body = None\<rparr>"

text \<open>A cache of strings stored as they are, an empty cache, and a cache with one tagged entry.\<close>

definition raw_codec :: "string vcodec" where
  "raw_codec = \<lparr>Marshal = (\<lambda>v. Inr v), Unmarshal = (\<lambda>b. Inr b)\<rparr>"

definition cache0 :: RedisCache where
  "cache0 = \<lparr>cache_client = redis0, cache_prefix = ''cache:''\<rparr>"

definition tagged_cache :: RedisCache where
  "tagged_cache =
     \<lparr>cache_client =
        \<lparr>kv = [''cache:product:1'' \<mapsto> (RString ''{id:1}'', Some (100 + 600 * Second)),
               ''tag:products'' \<mapsto> (RSet {''product:1''}, Some (100 + 600 * Second))],
         faults = []\<rparr>,
      cache_prefix = ''cache:''\<rparr>"

definition failing_compute :: "(string, unit) compute" where
  "failing_compute rc ext = (Inl (HandlerError ''database down''), rc, ext)"

text \<open>
  A handler that answers 200 with a body; the number it carries counts its invocations.
\<close>

definition hello_handler :: "nat chandler" where
  "hello_handler c rc n =
     (None,
      c\<lparr>response_status := 200,
        response_headers := (response_headers c)(''Content-Type'' \<mapsto> ''text/plain''),
        response_body := Some ''hello''\<rparr>,
      rc, Suc n)"

section \<open>Properties of the session entity\<close>

lemma IsExpired_iff: "IsExpired t s \<longleftrightarrow> ExpiresAt s < t"
  by (simp add: IsExpired_def)

text \<open>
  C9, as the code has it.  A session made by \<^verbatim>\<open>NewSession\<close> with a max-age that is not
  negative is not expired at the instant of its creation; it is not expired at any instant
  up to and including \<^verbatim>\<open>ExpiresAt\<close>, and it is expired at every later instant.
\<close>

theorem NewSession_IsExpired:
  fixes S :: "'v Session"
  assumes "0 \<le> maxAge" and "S = NewSession now sid maxAge"
  shows "\<not> IsExpired now S \<and> now \<le> ExpiresAt S
         \<and> (\<forall>t. t \<le> ExpiresAt S \<longrightarrow> \<not> IsExpired t S)
         \<and> (\<forall>t. ExpiresAt S < t \<longrightarrow> IsExpired t S)"
  using assms by (simp add: IsExpired_def NewSession_def)

theorem NewSession_IsExpired_witness:
  "\<not> IsExpired 100 (NewSession 100 ''sid'' 60 :: unit Session)
   \<and> \<not> IsExpired 160 (NewSession 100 ''sid'' 60 :: unit Session)
   \<and> IsExpired 161 (NewSession 100 ''sid'' 60 :: unit Session)"
  using NewSession_IsExpired [of 60 "NewSession 100 ''sid'' 60 :: unit Session" 100 "''sid''"]
  by (simp add: NewSession_def)

text \<open>
  C9 as stated fails for a negative max-age, which \<^verbatim>\<open>NewSession\<close> accepts: the session is
  expired at the very instant of its creation.
\<close>

theorem NewSession_negative_maxAge_counterexample:
  "IsExpired 100 (NewSession 100 ''sid'' (- 1) :: unit Session)"
  by (simp add: IsExpired_def NewSession_def)

section \<open>Properties of the Redis model\<close>

lemma redis_Get_found:
  "faults r = [] \<Longrightarrow> kv r k = Some (RString b, dl) \<Longrightarrow> live now dl \<Longrightarrow>
   redis_Get now k r = (Inr b, r)"
  by (simp add: redis_Get_def redis_attempt_def redis_lookup_def)

lemma redis_Get_absent:
  "faults r = [] \<Longrightarrow> kv r k = None \<Longrightarrow> redis_Get now k r = (Inl RedisNil, r)"
  by (simp add: redis_Get_def redis_attempt_def redis_lookup_def)

lemma redis_Get_kv: "kv (snd (redis_Get now k r)) = kv r"
  by (auto simp: redis_Get_def redis_attempt_def
      split: list.splits prod.splits bool.splits option.splits rvalue.splits)

lemma quot_pos: "0 \<le> a \<Longrightarrow> quot a b = a div b"
  by (simp add: quot_def)

text \<open>A positive expiration is sent as a positive time to live.\<close>

lemma sent_expiration_pos: "0 < ttl \<Longrightarrow> 0 < sent_expiration ttl"
proof -
  assume p: "0 < ttl"
  have ms: "Millisecond \<le> ttl \<Longrightarrow> 0 < ttl div Millisecond"
    by (simp add: Millisecond_def pos_imp_zdiv_pos_iff)
  have s: "Second \<le> ttl \<Longrightarrow> 0 < ttl div Second"
    by (simp add: Second_def pos_imp_zdiv_pos_iff)
  show ?thesis
  proof (cases "usePrecise ttl")
    case True
    then show ?thesis using p ms
      by (auto simp: sent_expiration_def formatMs_def quot_pos Millisecond_def)
  next
    case False
    then have "Second \<le> ttl" by (simp add: usePrecise_def)
    with False p s show ?thesis
      by (auto simp: sent_expiration_def formatSec_def quot_pos Second_def)
  qed
qed

lemma redis_Set_works:
  "faults r = [] \<Longrightarrow> 0 < ttl \<Longrightarrow>
   redis_Set now k b ttl r =
     (None, r\<lparr>kv := (kv r)(k \<mapsto> (RString b, Some (now + sent_expiration ttl)))\<rparr>)"
  by (simp add: redis_Set_def redis_attempt_def)

lemma redis_Set_fail_kv: "redis_Set now k b ttl r = (Some e, r') \<Longrightarrow> kv r' = kv r"
  by (auto simp: redis_Set_def redis_attempt_def Let_def
      split: list.splits prod.splits bool.splits if_splits)

lemma redis_Set_ok:
  "redis_Set now k b ttl r = (None, r') \<Longrightarrow> 0 < ttl \<Longrightarrow>
     kv r' = (kv r)(k \<mapsto> (RString b, Some (now + sent_expiration ttl)))"
  by (auto simp: redis_Set_def redis_attempt_def Let_def
      split: list.splits prod.splits bool.splits if_splits)

lemma redis_Del_works:
  "faults r = [] \<Longrightarrow> redis_Del ks r = (None, r\<lparr>kv := (\<lambda>k. if k \<in> ks then None else kv r k)\<rparr>)"
  by (simp add: redis_Del_def redis_attempt_def)

lemma redis_Del_other: "k \<notin> ks \<Longrightarrow> kv (snd (redis_Del ks r)) k = kv r k"
  by (auto simp: redis_Del_def redis_attempt_def split: list.splits prod.splits bool.splits if_splits)

lemma redis_Del_absent:
  "faults r = [] \<Longrightarrow> kv r k = None \<Longrightarrow> redis_Del {k} r = (None, r)"
  by (simp add: redis_Del_works fun_eq_iff)

lemma redis_SMembers_works:
  "faults r = [] \<Longrightarrow> redis_SMembers now k r = (Inr S, r') \<Longrightarrow> r' = r \<and> S = index_set now (kv r) k"
  by (auto simp: redis_SMembers_def redis_attempt_def redis_lookup_def index_set_def
      split: option.splits prod.splits rvalue.splits if_splits)

lemma redis_SMembers_absent:
  "faults r = [] \<Longrightarrow> kv r k = None \<Longrightarrow> redis_SMembers now k r = (Inr {}, r)"
  by (simp add: redis_SMembers_def redis_attempt_def redis_lookup_def)

lemma redis_SMembers_not_string:
  "faults r = [] \<Longrightarrow> \<forall>b dl. kv r k \<noteq> Some (RString b, dl) \<Longrightarrow>
     redis_SMembers now k r = (Inr (index_set now (kv r) k), r)"
  by (auto simp: redis_SMembers_def redis_attempt_def redis_lookup_def index_set_def
      split: option.splits prod.splits rvalue.splits if_splits)

section \<open>Properties of the session stores\<close>

lemma chan_session_not_demo: "chan_session \<noteq> demo_session"
  by (simp add: chan_session_def demo_session_def)

text \<open>
  C6, as the code has it.  \<^verbatim>\<open>RedisStore.Set\<close> of a session whose expiry minus the current
  time is not positive stores nothing and issues no command; it fails with
  \<^verbatim>\<open>ErrSessionExpired\<close> when the session serialises, and with the error of \<^verbatim>\<open>json.Marshal\<close>
  when it does not, because the session is serialised before the time to live is computed.
\<close>

theorem RedisStore_Set_expired:
  assumes "deref h p = Some s" and "ExpiresAt s - now \<le> 0"
  shows "RedisStore_Set cd now prefix p r h =
           (Some (case json_Marshal cd s of Inl e \<Rightarrow> e | Inr data \<Rightarrow> ErrSessionExpired), r)"
  using assms by (simp add: RedisStore_Set_def split: sum.splits)

theorem RedisStore_Set_expired_witness:
  "RedisStore_Set demo_codec 200 ''session:'' 0 redis0 [demo_session] =
     (Some ErrSessionExpired, redis0)"
  using RedisStore_Set_expired [of "[demo_session]" 0 demo_session 200 demo_codec "''session:''" redis0]
  by (simp add: deref_def demo_codec_def demo_session_def)

text \<open>
  C6 as stated fails for an expired session that does not serialise: the error returned is
  the one of \<^verbatim>\<open>json.Marshal\<close>, not \<^verbatim>\<open>ErrSessionExpired\<close>.
\<close>

theorem RedisStore_Set_expired_counterexample:
  "ExpiresAt chan_session - 200 \<le> 0
   \<and> RedisStore_Set demo_codec 200 ''session:'' 0 redis0 [chan_session] =
       (Some (CodecError ''json: unsupported type''), redis0)"
  by (simp add: RedisStore_Set_def deref_def demo_codec_def chan_session_not_demo)
     (simp add: chan_session_def)

subsection \<open>Save, then load\<close>

lemma memory_roundtrip:
  assumes "deref (heap w) p = Some s" and "store w = MemoryStore sessions" and "\<not> IsExpired now' s"
  shows "save_then_load cd now now' p w = Inr s"
  using assms
  by (simp add: save_then_load_def Store_Set_def Store_Get_def MemoryStore_Set_def
      MemoryStore_Get_def)

lemma redis_roundtrip:
  assumes "deref (heap w) p = Some s" and "store w = RedisStore r prefix" and "faults r = []"
    and "0 < ExpiresAt s - now" and "now' < now + sent_expiration (ExpiresAt s - now)"
    and "json_Marshal cd s = Inr data" and "json_Unmarshal cd data = Inr s'"
    and "\<not> IsExpired now' s'"
  shows "save_then_load cd now now' p w = Inr s'"
  using assms
  by (simp add: save_then_load_def Store_Set_def Store_Get_def RedisStore_Set_def
      RedisStore_Get_def redis_Set_works redis_Get_found live_def alloc_def deref_def)

lemma cookie_roundtrip:
  assumes "store w = CookieStore maxAge"
    and "json_Marshal cd s = Inr data"
    and "base64_EncodeToString cd data \<noteq> []"
    and "base64_DecodeString cd (base64_EncodeToString cd data) = Inr data"
    and "json_Unmarshal cd data = Inr s'"
    and "\<not> IsExpired now' s'"
  shows "encode_then_load cd now' s w = Inr s'"
  using assms
  by (simp add: encode_then_load_def CookieStore_Encode_def Store_Get_def CookieStore_Get_def
      alloc_def deref_def)

text \<open>
  With the cookie store, saving changes nothing and the load depends on the identifier
  alone: it decodes the identifier as if it were the cookie value.
\<close>

lemma cookie_save_then_load:
  assumes "store w = CookieStore maxAge" and "deref (heap w) p = Some s"
  shows "save_then_load cd now now' p w =
           (case CookieStore_Get cd now' (ID s) (heap w) of
              (Inl e, h') \<Rightarrow> Inl e
            | (Inr q, h') \<Rightarrow>
                (case deref h' q of
                   None \<Rightarrow> Inl (Panic ''nil pointer dereference'')
                 | Some s' \<Rightarrow> Inr s'))"
  using assms
  by (simp add: save_then_load_def Store_Set_def Store_Get_def CookieStore_Set_def
      split: prod.splits sum.splits)

lemma cookie_load_independent:
  assumes "ID s = ID s'"
  shows "map_sum id Data (save_then_load cd now now' 0 \<lparr>store = CookieStore m, heap = [s]\<rparr>)
       = map_sum id Data (save_then_load cd now now' 0 \<lparr>store = CookieStore m, heap = [s']\<rparr>)"
  using assms
  by (auto simp: cookie_save_then_load deref_def CookieStore_Get_def alloc_def
      split: sum.splits prod.splits)

text \<open>
  C2, as the code has it.  For a session \<open>s\<close> behind the pointer \<open>p\<close>:
  with the memory store, \<^verbatim>\<open>Set\<close> followed by \<^verbatim>\<open>Get(s.ID)\<close> at an instant at which \<open>s\<close> is not
  expired returns \<open>s\<close> itself, with the same \<^verbatim>\<open>Data\<close>;
  with the Redis store, when the commands reach the server, \<open>s\<close> serialises, \<^verbatim>\<open>Set\<close> happens
  strictly before \<^verbatim>\<open>s.ExpiresAt\<close>, \<^verbatim>\<open>Get\<close> happens before the time to live that the client
  sends has run out, and the stored text decodes to an unexpired session, \<^verbatim>\<open>Set\<close> followed
  by \<^verbatim>\<open>Get(s.ID)\<close> returns that decoded session, and its \<^verbatim>\<open>Data\<close> are those of \<open>s\<close> exactly
  when the decoding gives them back;
  with the cookie store, where \<^verbatim>\<open>Set\<close> stores nothing and \<^verbatim>\<open>Get\<close> decodes its argument, it is
  \<^verbatim>\<open>Encode\<close> followed by \<^verbatim>\<open>Get\<close> of the encoded value that returns the decoded session.
\<close>

theorem save_then_load_roundtrip:
  assumes "deref (heap w) p = Some s"
  shows "case store w of
           MemoryStore sessions \<Rightarrow>
             \<not> IsExpired now' s \<longrightarrow>
               save_then_load cd now now' p w = Inr s \<and> roundtrip_ok cd now now' p w
         | RedisStore r prefix \<Rightarrow>
             (\<forall>data s'. faults r = [] \<and> json_Marshal cd s = Inr data
                \<and> 0 < ExpiresAt s - now \<and> now' < now + sent_expiration (ExpiresAt s - now)
                \<and> json_Unmarshal cd data = Inr s' \<and> \<not> IsExpired now' s'
                \<longrightarrow> save_then_load cd now now' p w = Inr s'
                  \<and> (roundtrip_ok cd now now' p w \<longleftrightarrow> Data s' = Data s))
         | CookieStore maxAge \<Rightarrow>
             (\<forall>data s'. json_Marshal cd s = Inr data \<and> base64_EncodeToString cd data \<noteq> []
                \<and> base64_DecodeString cd (base64_EncodeToString cd data) = Inr data
                \<and> json_Unmarshal cd data = Inr s' \<and> \<not> IsExpired now' s'
                \<longrightarrow> encode_then_load cd now' s w = Inr s')"
proof (cases "store w")
  case (MemoryStore sessions)
  then show ?thesis using assms by (simp add: memory_roundtrip roundtrip_ok_def)
next
  case (CookieStore maxAge)
  then show ?thesis by (auto simp: cookie_roundtrip)
next
  case (RedisStore r prefix)
  then show ?thesis using assms by (auto simp: redis_roundtrip roundtrip_ok_def)
qed

lemma sent_expiration_60: "sent_expiration 60 = Millisecond"
  by (simp add: sent_expiration_def usePrecise_def formatMs_def Second_def Millisecond_def)

theorem save_then_load_roundtrip_witness:
  "save_then_load demo_codec 100 150 0 \<lparr>store = MemoryStore Map.empty, heap = [demo_session]\<rparr>
     = Inr demo_session
   \<and> save_then_load demo_codec 100 150 0
       \<lparr>store = RedisStore redis0 ''session:'', heap = [demo_session]\<rparr>
     = Inr demo_session
   \<and> encode_then_load demo_codec 150 demo_session
       \<lparr>store = CookieStore 60, heap = [demo_session]\<rparr>
     = Inr demo_session"
proof -
  have d: "deref [demo_session] 0 = Some demo_session" by (simp add: deref_def)
  have x: "ExpiresAt demo_session - 100 = 60" by (simp add: demo_session_def)
  have m: "save_then_load demo_codec 100 150 0
             \<lparr>store = MemoryStore Map.empty, heap = [demo_session]\<rparr> = Inr demo_session"
    using save_then_load_roundtrip [of "\<lparr>store = MemoryStore Map.empty, heap = [demo_session]\<rparr>" 0
        demo_session 150 demo_codec 100] d
    by (simp add: IsExpired_def demo_session_def)
  have r: "save_then_load demo_codec 100 150 0
             \<lparr>store = RedisStore redis0 ''session:'', heap = [demo_session]\<rparr> = Inr demo_session"
    using save_then_load_roundtrip
        [of "\<lparr>store = RedisStore redis0 ''session:'', heap = [demo_session]\<rparr>" 0
        demo_session 150 demo_codec 100] d
    by (simp add: IsExpired_def demo_codec_def redis0_def x sent_expiration_60 Millisecond_def)
       (simp add: demo_session_def)
  have c: "encode_then_load demo_codec 150 demo_session
             \<lparr>store = CookieStore 60, heap = [demo_session]\<rparr> = Inr demo_session"
    using save_then_load_roundtrip [of "\<lparr>store = CookieStore 60, heap = [demo_session]\<rparr>" 0
        demo_session 150 demo_codec 100] d
    by (simp add: IsExpired_def demo_codec_def demo_cookie_def) (simp add: demo_session_def)
  show ?thesis using m r c by simp
qed

text \<open>
  Whatever the two encodings do, two unexpired sessions with the same identifier and
  different data cannot both come back from \<^verbatim>\<open>Set\<close> followed by \<^verbatim>\<open>Get(s.ID)\<close> on the cookie
  store, since nothing was stored and the identifier is all that \<^verbatim>\<open>Get\<close> sees.
\<close>

lemma cookie_roundtrip_impossible:
  "\<not> (roundtrip_ok cd 100 101 0 \<lparr>store = CookieStore 60, heap = [demo_session]\<rparr>
      \<and> roundtrip_ok cd 100 101 0 \<lparr>store = CookieStore 60, heap = [other_session]\<rparr>)"
proof (intro notI, elim conjE)
  assume a: "roundtrip_ok cd 100 101 0 \<lparr>store = CookieStore 60, heap = [demo_session]\<rparr>"
    and b: "roundtrip_ok cd 100 101 0 \<lparr>store = CookieStore 60, heap = [other_session]\<rparr>"
  have i: "ID demo_session = ID other_session"
    by (simp add: demo_session_def other_session_def)
  from a have "map_sum id Data
        (save_then_load cd 100 101 0 \<lparr>store = CookieStore 60, heap = [demo_session]\<rparr>)
      = Inr (Data demo_session)"
    by (auto simp: roundtrip_ok_def deref_def split: sum.splits)
  moreover from b have "map_sum id Data
        (save_then_load cd 100 101 0 \<lparr>store = CookieStore 60, heap = [other_session]\<rparr>)
      = Inr (Data other_session)"
    by (auto simp: roundtrip_ok_def deref_def split: sum.splits)
  ultimately have "Data demo_session = Data other_session"
    using cookie_load_independent [OF i, of cd 100 101 60] by simp
  then have "[''user'' \<mapsto> GString ''ann''] ''user'' = [''user'' \<mapsto> GString ''bob''] ''user''"
    by (simp add: demo_session_def other_session_def)
  then show False by simp
qed

text \<open>The four runs of the counterexample, one by one.\<close>

lemma cookie_load_by_identifier:
  "save_then_load demo_codec 100 101 0 \<lparr>store = CookieStore 60, heap = [demo_session]\<rparr>
     = Inl (CodecError ''illegal base64 data'')"
  by (simp add: cookie_save_then_load [of _ 60] deref_def CookieStore_Get_def demo_codec_def)
     (simp add: demo_session_def demo_cookie_def)

lemma sent_expiration_hour: "sent_expiration Hour = Hour"
  by (simp add: sent_expiration_def usePrecise_def formatSec_def quot_def Hour_def Second_def)

lemma redis_load_changes_data:
  "save_then_load wire_codec 100 150 0
     \<lparr>store = RedisStore redis0 ''session:'', heap = [visits_session]\<rparr> = Inr visits_decoded"
proof -
  have x: "ExpiresAt visits_session - 100 = Hour" by (simp add: visits_session_def)
  have e: "\<not> IsExpired 150 visits_decoded"
    by (simp add: IsExpired_def visits_decoded_def Hour_def Second_def)
  show ?thesis
    by (rule redis_roundtrip [where s = visits_session and r = redis0 and prefix = "''session:''"
          and data = visits_bytes])
       (simp_all add: deref_def redis0_def wire_codec_def x sent_expiration_hour e,
        simp_all add: Hour_def Second_def)
qed

lemma sent_expiration_short: "sent_expiration 1900000 = Millisecond"
  by (simp add: sent_expiration_def usePrecise_def formatMs_def quot_def Second_def
      Millisecond_def)

lemma short_not_visits: "short_session \<noteq> visits_session"
  by (simp add: short_session_def visits_session_def)

lemma redis_load_after_sent_expiration:
  "save_then_load wire_codec 900000 2500000 0
     \<lparr>store = RedisStore redis0 ''session:'', heap = [short_session]\<rparr> = Inl ErrSessionNotFound"
proof -
  have x: "ExpiresAt short_session - 900000 = 1900000" "ID short_session = ''short''"
    by (simp_all add: short_session_def)
  show ?thesis
    by (simp add: save_then_load_def deref_def Store_Set_def RedisStore_Set_def wire_codec_def
        short_not_visits x redis0_def redis_Set_works sent_expiration_short Millisecond_def
        Store_Get_def RedisStore_Get_def redis_Get_def redis_attempt_def redis_lookup_def
        live_def)
qed

lemma redis_save_at_expiry:
  "save_then_load demo_codec 160 160 0
     \<lparr>store = RedisStore redis0 ''session:'', heap = [demo_session]\<rparr> = Inl ErrSessionExpired"
proof -
  have x: "ExpiresAt demo_session - 160 = 0" by (simp add: demo_session_def)
  show ?thesis
    by (simp add: save_then_load_def deref_def Store_Set_def RedisStore_Set_def demo_codec_def x)
qed

text \<open>
  C2 as stated fails on four inputs, each a session that is not expired when it is loaded.
  With the cookie store, \<^verbatim>\<open>Set\<close> stores nothing and \<^verbatim>\<open>Get("abc")\<close> takes the identifier for a
  cookie value, which is not base64 text: the load fails with the decoder's error.
  With the Redis store, a session that holds the \<^verbatim>\<open>int\<close> 7 comes back holding the
  \<^verbatim>\<open>float64\<close> 7: the load succeeds with other \<^verbatim>\<open>Data\<close>.
  With the Redis store, a session saved 1.9 milliseconds before its expiry is stored with
  1 millisecond to live, and a load 1.6 milliseconds after the save, before the expiry,
  returns \<^verbatim>\<open>ErrSessionNotFound\<close>.
  With the Redis store, a save at the very instant of the expiry, at which the session is
  not yet expired, fails with \<^verbatim>\<open>ErrSessionExpired\<close>.
\<close>

theorem save_then_load_counterexample:
  "\<not> IsExpired 101 demo_session
   \<and> save_then_load demo_codec 100 101 0 \<lparr>store = CookieStore 60, heap = [demo_session]\<rparr>
       = Inl (CodecError ''illegal base64 data'')
   \<and> \<not> IsExpired 150 visits_session
   \<and> save_then_load wire_codec 100 150 0
         \<lparr>store = RedisStore redis0 ''session:'', heap = [visits_session]\<rparr> = Inr visits_decoded
   \<and> Data visits_decoded \<noteq> Data visits_session
   \<and> \<not> IsExpired 2500000 short_session
   \<and> save_then_load wire_codec 900000 2500000 0
         \<lparr>store = RedisStore redis0 ''session:'', heap = [short_session]\<rparr>
       = Inl ErrSessionNotFound
   \<and> \<not> IsExpired 160 demo_session
   \<and> save_then_load demo_codec 160 160 0
         \<lparr>store = RedisStore redis0 ''session:'', heap = [demo_session]\<rparr>
       = Inl ErrSessionExpired"
proof -
  have e: "\<not> IsExpired 101 demo_session" "\<not> IsExpired 160 demo_session"
    "\<not> IsExpired 2500000 short_session"
    by (simp_all add: IsExpired_def demo_session_def short_session_def)
  have v: "\<not> IsExpired 150 visits_session"
    by (simp add: IsExpired_def visits_session_def Hour_def Second_def)
  have d: "Data visits_decoded \<noteq> Data visits_session"
  proof
    assume "Data visits_decoded = Data visits_session"
    then have "[''visits'' \<mapsto> GFloat64 7] ''visits'' = [''visits'' \<mapsto> GInt 7] ''visits''"
      by (simp add: visits_decoded_def visits_session_def)
    then show False by simp
  qed
  show ?thesis
    using e v d cookie_load_by_identifier redis_load_changes_data
      redis_load_after_sent_expiration redis_save_at_expiry
    by simp
qed

subsection \<open>Loading an expired record\<close>



text \<open>The sweep of the memory store is what removes the expired record.\<close>

lemma MemoryStore_Cleanup_removes_expired:
  assumes "sessions sid = Some p" and "deref h p = Some s" and "IsExpired now s"
    and "MemoryStore_Cleanup now sessions h = (None, sessions')"
  shows "sessions' sid = None"
  using assms by (auto simp: MemoryStore_Cleanup_def IsExpired_def split: if_splits)





section \<open>Properties of the session middleware\<close>

lemma Context_Get_Set:
  "Context_Get k (Context_Set k' v c) = (if k = k' then Some v else Context_Get k c)"
  by (simp add: Context_Get_def Context_Set_def)

lemma GetSession_iff:
  "GetSession c = Inr p \<longleftrightarrow> Context_Get ''session'' c = Some (SessionPtr p)"
  by (auto simp: GetSession_def split: option.splits cvalue.splits)

lemma with_defaults_ContextKey:
  "ContextKey (with_defaults config) =
     (if ContextKey config = [] then ''session'' else ContextKey config)"
  by (simp add: with_defaults_def Let_def)

lemma Store_Set_heap: "heap (snd (Store_Set cd now p w)) = heap w"
  by (auto simp: Store_Set_def split: Store.splits prod.splits)

lemma RedisStore_Get_heap_len:
  "RedisStore_Get cd now prefix sid r h = (res, r', h') \<Longrightarrow> length h \<le> length h'"
  by (auto simp: RedisStore_Get_def alloc_def split: prod.splits sum.splits if_splits)

lemma Store_Touch_heap_len: "length (heap w) \<le> length (heap (snd (Store_Touch cd now sid w)))"
  by (auto simp: Store_Touch_def MemoryStore_Touch_def CookieStore_Touch_def RedisStore_Touch_def
      store_at_def Let_def
      split: Store.splits prod.splits option.splits sum.splits dest: RedisStore_Get_heap_len)

text \<open>
  What the first part of the middleware leaves in the context when it reaches the handler:
  a pointer to a session of the heap under the configured key, then a string under
  \<^verbatim>\<open>"session_id"\<close>.
\<close>

lemma Middleware_resolve_context:
  assumes run: "Middleware_resolve cd config now sid c w = (Inr c1, w1)"
  shows "\<exists>p v. c1 = Context_Set ''session_id'' (StringVal v)
                      (Context_Set (ContextKey config) (SessionPtr p) c)
               \<and> p < length (heap w1)"
proof (cases "Middleware_lookup cd config now c w")
  case (Pair found wl)
  show ?thesis
  proof (cases found)
    case None
    let ?w0 = "wl\<lparr>heap := heap wl @ [NewSession now sid (MaxAge config)]\<rparr>"
    obtain e w2 where st: "Store_Set cd now (length (heap wl)) ?w0 = (e, w2)"
      by (cases "Store_Set cd now (length (heap wl)) ?w0") auto
    have "heap w2 = heap wl @ [NewSession now sid (MaxAge config)]"
      using Store_Set_heap [of cd now "length (heap wl)" ?w0] st by simp
    with run Pair None st show ?thesis
      by (auto simp: Middleware_resolve_def alloc_def split: option.splits)
  next
    case (Some p)
    with run Pair obtain s where d: "deref (heap wl) p = Some s"
      by (auto simp: Middleware_resolve_def split: option.splits)
    have "length (heap wl) \<le> length (heap (snd (Store_Touch cd now (ID s) wl)))"
      by (rule Store_Touch_heap_len)
    with run Pair Some d show ?thesis
      by (auto simp: Middleware_resolve_def deref_def split: option.splits prod.splits if_splits)
  qed
qed

text \<open>
  C10.  \<^verbatim>\<open>GetSession\<close> succeeds exactly when the context holds a \<^verbatim>\<open>*Session\<close> under the
  literal key \<^verbatim>\<open>"session"\<close>.  When the middleware is configured with a context key that is
  neither \<^verbatim>\<open>"session"\<close> nor empty (an empty key is replaced by \<^verbatim>\<open>"session"\<close>), and the
  context of the request holds no session under \<^verbatim>\<open>"session"\<close> beforehand, then in the
  context that the middleware hands to the handler \<^verbatim>\<open>GetSession\<close> returns
  \<^verbatim>\<open>ErrSessionNotFound\<close>, although the middleware has put a pointer to a session of the
  heap under the configured key (unless that key is \<^verbatim>\<open>"session_id"\<close>, which the middleware
  overwrites with the identifier).
\<close>

theorem GetSession_fixed_key:
  assumes key: "ContextKey config0 \<noteq> []" "ContextKey config0 \<noteq> ''session''"
    and run: "Middleware_resolve cd (with_defaults config0) now sid c w = (Inr c1, w1)"
    and fresh: "\<forall>p. Context_Get ''session'' c \<noteq> Some (SessionPtr p)"
  shows "GetSession c1 = Inl ErrSessionNotFound
       \<and> (ContextKey config0 \<noteq> ''session_id'' \<longrightarrow>
            (\<exists>p s. Context_Get (ContextKey config0) c1 = Some (SessionPtr p)
                   \<and> deref (heap w1) p = Some s))
       \<and> (\<forall>c' p. GetSession c' = Inr p \<longleftrightarrow> Context_Get ''session'' c' = Some (SessionPtr p))"
proof -
  have ck: "ContextKey (with_defaults config0) = ContextKey config0"
    using key by (simp add: with_defaults_ContextKey)
  obtain p v where c1: "c1 = Context_Set ''session_id'' (StringVal v)
                        (Context_Set (ContextKey config0) (SessionPtr p) c)"
    and p: "p < length (heap w1)"
    using Middleware_resolve_context [OF run] ck by auto
  have "Context_Get ''session'' c1 = Context_Get ''session'' c"
    using key by (simp add: c1 Context_Get_Set)
  with fresh have "GetSession c1 = Inl ErrSessionNotFound"
    by (auto simp: GetSession_def split: option.splits cvalue.splits)
  moreover have "ContextKey config0 \<noteq> ''session_id'' \<longrightarrow>
            (\<exists>p s. Context_Get (ContextKey config0) c1 = Some (SessionPtr p)
                   \<and> deref (heap w1) p = Some s)"
    using p by (auto simp: c1 Context_Get_Set deref_def)
  moreover have "\<forall>c' p. GetSession c' = Inr p \<longleftrightarrow> Context_Get ''session'' c' = Some (SessionPtr p)"
    by (simp add: GetSession_iff)
  ultimately show ?thesis by blast
qed

theorem GetSession_fixed_key_witness:
  "case Middleware_resolve demo_codec (with_defaults (DefaultConfig\<lparr>ContextKey := ''user_session''\<rparr>))
          100 ''abc'' request0 memory0 of
     (Inl e, w1) \<Rightarrow> False
   | (Inr c1, w1) \<Rightarrow>
       GetSession c1 = Inl ErrSessionNotFound
     \<and> Context_Get ''user_session'' c1 = Some (SessionPtr 0)"
proof -
  let ?cfg = "DefaultConfig\<lparr>ContextKey := ''user_session''\<rparr>"
  let ?c1 = "Context_Set ''session_id'' (StringVal ''abc'')
               (Context_Set ''user_session'' (SessionPtr 0) request0)"
  let ?w1 = "\<lparr>store = MemoryStore [''abc'' \<mapsto> 0],
              heap = [NewSession 100 ''abc'' (24 * Hour) :: gvalue Session]\<rparr>"
  have run: "Middleware_resolve demo_codec (with_defaults ?cfg) 100 ''abc'' request0 memory0
               = (Inr ?c1, ?w1)"
    by (simp add: Middleware_resolve_def Middleware_lookup_def with_defaults_def DefaultConfig_def
        request0_def memory0_def alloc_def Store_Set_def MemoryStore_Set_def deref_def
        NewSession_def Hour_def Second_def)
  have fresh: "\<forall>p. Context_Get ''session'' request0 \<noteq> Some (SessionPtr p)"
    by (simp add: Context_Get_def request0_def)
  have key: "ContextKey ?cfg \<noteq> []" "ContextKey ?cfg \<noteq> ''session''" by simp_all
  show ?thesis
    using GetSession_fixed_key [OF key run fresh] run
    by (simp add: Context_Get_Set)
qed

subsection \<open>RegenerateSession\<close>

lemma Store_Set_fail_has:
  "Store_Set cd now p w = (Some e, w') \<Longrightarrow> Store_has t (store w') sid = Store_has t (store w) sid"
  by (auto simp: Store_Set_def Store_has_def MemoryStore_Set_def CookieStore_Set_def
      RedisStore_Set_def Let_def redis_lookup_def
      split: Store.splits prod.splits option.splits sum.splits if_splits
      dest!: redis_Set_fail_kv)

lemma Store_Set_ok_has_other:
  "Store_Set cd now p w = (None, w') \<Longrightarrow> deref (heap w) p = Some s \<Longrightarrow> sid \<noteq> ID s \<Longrightarrow>
     Store_has t (store w') sid = Store_has t (store w) sid"
  by (auto simp: Store_Set_def Store_has_def MemoryStore_Set_def CookieStore_Set_def
      RedisStore_Set_def Let_def redis_lookup_def
      split: Store.splits prod.splits option.splits sum.splits if_splits
      dest!: redis_Set_ok)

lemma Store_Set_ok_has_new:
  "Store_Set cd now p w = (None, w') \<Longrightarrow> deref (heap w) p = Some s \<Longrightarrow>
     keeps_records (store w) \<Longrightarrow> Store_has now (store w') (ID s)"
  by (auto simp: Store_Set_def Store_has_def MemoryStore_Set_def CookieStore_Set_def
      keeps_records_def RedisStore_Set_def Let_def redis_lookup_def live_def sent_expiration_pos
      split: Store.splits prod.splits option.splits sum.splits if_splits
      dest!: redis_Set_ok)

lemma Store_Delete_has_other:
  "sid \<noteq> sid' \<Longrightarrow>
     Store_has t (store (snd (Store_Delete sid' w))) sid = Store_has t (store w) sid"
proof (cases "store w")
  case (RedisStore r prefix)
  assume "sid \<noteq> sid'"
  then have "kv (snd (redis_Del {prefix @ sid'} r)) (prefix @ sid) = kv r (prefix @ sid)"
    by (simp add: redis_Del_other)
  then show ?thesis using RedisStore
    by (simp add: Store_Delete_def Store_has_def RedisStore_Delete_def redis_lookup_def
        case_prod_beta)
qed (auto simp: Store_Delete_def Store_has_def MemoryStore_Delete_def CookieStore_Delete_def)

lemma Regenerate_save_unfold:
  assumes "GetSession c = Inr po" and "deref (heap w) po = Some old"
  shows "Regenerate_save cd config now now' sid c w =
     (case Store_Set cd now' (length (heap w))
             (w\<lparr>heap := heap w @ [(NewSession now sid (MaxAge config))\<lparr>Data := Data old\<rparr>]\<rparr>) of
        (Some e, w') \<Rightarrow> (Inl e, w')
      | (None, w') \<Rightarrow> (Inr (po, length (heap w)), w'))"
  using assms by (simp add: Regenerate_save_def alloc_def)

text \<open>
  C5.  \<^verbatim>\<open>RegenerateSession\<close> saves the new session, which carries the old session's data,
  before it deletes the old one.  For a context whose session \<open>old\<close> is found by
  \<^verbatim>\<open>GetSession\<close>, and a new identifier different from the old one:
  if the save fails with \<open>e\<close>, \<^verbatim>\<open>RegenerateSession\<close> returns \<open>e\<close>, and the store holds at every
  instant and under every identifier what it held before, the old session included;
  if the save succeeds, the state between the save and the delete holds the old session as
  before and (in a store that keeps records) the new one, and in the final state, after the
  delete of the old identifier, the new session is still held.
\<close>

theorem RegenerateSession_order:
  assumes gs: "GetSession c = Inr po" and old: "deref (heap w) po = Some old"
    and fresh: "sid \<noteq> ID old"
  shows "case Regenerate_save cd config now now' sid c w of
           (Inl e, w1) \<Rightarrow>
               RegenerateSession cd config now now' sid c w = (Some e, c, w1)
             \<and> (\<forall>t i. Store_has t (store w1) i = Store_has t (store w) i)
         | (Inr (po', pn), w1) \<Rightarrow>
               (\<exists>new. deref (heap w1) pn = Some new \<and> ID new = sid \<and> Data new = Data old)
             \<and> (\<forall>t. Store_has t (store w1) (ID old) = Store_has t (store w) (ID old))
             \<and> (keeps_records (store w) \<longrightarrow> Store_has now' (store w1) sid)
             \<and> (\<exists>c2 w2. RegenerateSession cd config now now' sid c w = (None, c2, w2)
                   \<and> w2 = snd (Store_Delete (ID old) w1)
                   \<and> (keeps_records (store w) \<longrightarrow> Store_has now' (store w2) sid))"
proof -
  let ?new = "(NewSession now sid (MaxAge config))\<lparr>Data := Data old\<rparr> :: 'a Session"
  let ?w0 = "w\<lparr>heap := heap w @ [?new]\<rparr>"
  let ?pn = "length (heap w)"
  have dn: "deref (heap ?w0) ?pn = Some ?new" by (simp add: deref_def)
  have idn: "ID ?new = sid" by (simp add: NewSession_def)
  have po: "po < length (heap w)" "heap w ! po = old"
    using old by (auto simp: deref_def split: if_splits)
  obtain e w1 where st: "Store_Set cd now' ?pn ?w0 = (e, w1)"
    by (cases "Store_Set cd now' ?pn ?w0") auto
  have h1: "heap w1 = heap w @ [?new]" using Store_Set_heap [of cd now' ?pn ?w0] st by simp
  show ?thesis
  proof (cases e)
    case (Some err)
    have "\<forall>t i. Store_has t (store w1) i = Store_has t (store w) i"
      using Store_Set_fail_has [of cd now' ?pn ?w0 err w1] st Some by simp
    then show ?thesis using st Some gs old
      by (simp add: Regenerate_save_unfold RegenerateSession_def)
  next
    case None
    have a: "\<forall>t. Store_has t (store w1) (ID old) = Store_has t (store w) (ID old)"
      using Store_Set_ok_has_other [of cd now' ?pn ?w0 w1 ?new "ID old"] st None dn idn fresh
      by simp
    have b: "keeps_records (store w) \<longrightarrow> Store_has now' (store w1) sid"
      using Store_Set_ok_has_new [of cd now' ?pn ?w0 w1 ?new] st None dn idn by simp
    have d1: "deref (heap w1) po = Some old" using po h1 by (simp add: deref_def nth_append)
    have c: "keeps_records (store w) \<longrightarrow>
               Store_has now' (store (snd (Store_Delete (ID old) w1))) sid"
      using b fresh by (simp add: Store_Delete_has_other)
    have n1: "deref (heap w1) ?pn = Some ?new" using h1 by (simp add: deref_def)
    show ?thesis using st None gs old a b c d1 n1 idn
      by (simp add: Regenerate_save_unfold RegenerateSession_def Regenerate_switch_def
          case_prod_beta)
  qed
qed

theorem RegenerateSession_order_witness:
  "fst (RegenerateSession demo_codec DefaultConfig 100 100 ''xyz''
          (Context_Set ''session'' (SessionPtr 0) request0)
          \<lparr>store = MemoryStore [''abc'' \<mapsto> 0], heap = [demo_session]\<rparr>) = None
   \<and> Store_has 100 (store (snd (Regenerate_save demo_codec DefaultConfig 100 100 ''xyz''
          (Context_Set ''session'' (SessionPtr 0) request0)
          \<lparr>store = MemoryStore [''abc'' \<mapsto> 0], heap = [demo_session]\<rparr>))) ''abc''
   \<and> Store_has 100 (store (snd (Regenerate_save demo_codec DefaultConfig 100 100 ''xyz''
          (Context_Set ''session'' (SessionPtr 0) request0)
          \<lparr>store = MemoryStore [''abc'' \<mapsto> 0], heap = [demo_session]\<rparr>))) ''xyz''
   \<and> Store_has 100 (store (snd (snd (RegenerateSession demo_codec DefaultConfig 100 100 ''xyz''
          (Context_Set ''session'' (SessionPtr 0) request0)
          \<lparr>store = MemoryStore [''abc'' \<mapsto> 0], heap = [demo_session]\<rparr>)))) ''xyz''"
proof -
  let ?c = "Context_Set ''session'' (SessionPtr 0) request0"
  let ?w = "\<lparr>store = MemoryStore [''abc'' \<mapsto> 0], heap = [demo_session]\<rparr>"
  have gs: "GetSession ?c = Inr 0" by (simp add: GetSession_def Context_Get_Set)
  have old: "deref (heap ?w) 0 = Some demo_session" by (simp add: deref_def)
  have fresh: "''xyz'' \<noteq> ID demo_session" by (simp add: demo_session_def)
  have sv: "fst (Regenerate_save demo_codec DefaultConfig 100 100 ''xyz'' ?c ?w) = Inr (0, 1)"
    using gs old
    by (simp add: Regenerate_save_unfold Store_Set_def MemoryStore_Set_def deref_def
        split: prod.splits)
  have has: "Store_has 100 (store ?w) (ID demo_session)"
    by (simp add: Store_has_def demo_session_def)
  have kp: "keeps_records (store ?w)" by (simp add: keeps_records_def)
  show ?thesis
    using RegenerateSession_order [OF gs old fresh, of demo_codec DefaultConfig 100 100] sv has kp
    by (auto simp: demo_session_def split: prod.splits)
qed

subsection \<open>Flash messages\<close>

text \<open>
  C4.  In a context whose key \<^verbatim>\<open>"session"\<close> holds a pointer to a session with a non-nil
  \<^verbatim>\<open>Data\<close> map: \<^verbatim>\<open>Flash(c, k, v)\<close> returns nil; the first \<^verbatim>\<open>GetFlash(c, k)\<close> then returns
  \<^verbatim>\<open>(v, true)\<close> and removes the entry from the session; a second \<^verbatim>\<open>GetFlash(c, k)\<close> returns
  \<^verbatim>\<open>(nil, false)\<close> and changes nothing, so every further read fails as well.
\<close>

theorem Flash_GetFlash_once:
  assumes "GetSession c = Inr p" and "deref h p = Some s" and "Data s = Some m"
  shows "\<exists>h1 h2 s2.
           Flash t1 c k v h = (None, h1)
         \<and> GetFlash t2 c k h1 = (Inr (Some v), h2)
         \<and> deref h2 p = Some s2 \<and> Session_Get (''_flash_'' @ k) s2 = None
         \<and> GetFlash t3 c k h2 = (Inr None, h2)"
  using assms
  by (auto simp: Flash_def GetFlash_def Session_Set_def Session_Get_def Session_Delete_def
      deref_def store_at_def split: if_splits)

theorem Flash_GetFlash_once_witness:
  "fst (Flash 101 (Context_Set ''session'' (SessionPtr 0) request0) ''notice'' (GString ''saved'')
          [demo_session]) = None
   \<and> fst (GetFlash 102 (Context_Set ''session'' (SessionPtr 0) request0) ''notice''
        (snd (Flash 101 (Context_Set ''session'' (SessionPtr 0) request0) ''notice''
               (GString ''saved'') [demo_session]))) = Inr (Some (GString ''saved''))
   \<and> fst (GetFlash 103 (Context_Set ''session'' (SessionPtr 0) request0) ''notice''
        (snd (GetFlash 102 (Context_Set ''session'' (SessionPtr 0) request0) ''notice''
          (snd (Flash 101 (Context_Set ''session'' (SessionPtr 0) request0) ''notice''
               (GString ''saved'') [demo_session]))))) = Inr None"
  using Flash_GetFlash_once [of "Context_Set ''session'' (SessionPtr 0) request0" 0
      "[demo_session]" demo_session "[''user'' \<mapsto> GString ''ann'']" 101 "''notice''"
      "GString ''saved''" 102 103]
  by (auto simp: GetSession_def Context_Get_def Context_Set_def deref_def demo_session_def)

section \<open>Properties of the cache store\<close>

lemma RedisCache_Get_kv:
  "kv (cache_client (snd (RedisCache_Get vc now key rc))) = kv (cache_client rc)"
proof -
  have "kv (snd (redis_Get now (cache_prefix rc @ key) (cache_client rc))) = kv (cache_client rc)"
    by (rule redis_Get_kv)
  then show ?thesis
    by (auto simp: RedisCache_Get_def split: prod.splits sum.splits)
qed

text \<open>
  C7.  Let the compute function count its invocations, starting at 0, and let \<open>got\<close> be
  what the lookup of \<^verbatim>\<open>Remember\<close> returns.  One call of \<^verbatim>\<open>Remember\<close> invokes the function at
  most once: not at all unless the lookup is a miss, in which case (a hit, or an error of
  the lookup) it returns what the lookup returned; exactly once on a miss.  The lookup
  writes nothing.  When the function returns an error on a miss, \<^verbatim>\<open>Remember\<close> returns that
  error and leaves the cache exactly as the function left it: nothing is stored.
\<close>

theorem Remember_compute_once:
  fixes fn :: "('a, 'e) compute"
  assumes run: "Remember vc now now' key ttl (counted fn) rc (0, ext) = (res, rc', (n, ext'))"
    and got: "RedisCache_Get vc now key rc = (got, rc1)"
  shows "n \<le> 1
       \<and> (n = 1 \<longleftrightarrow> got = Inl ErrCacheMiss)
       \<and> (got \<noteq> Inl ErrCacheMiss \<longrightarrow> res = got \<and> rc' = rc1 \<and> ext' = ext)
       \<and> kv (cache_client rc1) = kv (cache_client rc)
       \<and> (got = Inl ErrCacheMiss \<longrightarrow> ext' = snd (snd (fn rc1 ext)))
       \<and> (\<forall>err. got = Inl ErrCacheMiss \<and> fst (fn rc1 ext) = Inl err
             \<longrightarrow> res = Inl err \<and> rc' = fst (snd (fn rc1 ext)))"
proof -
  have k: "kv (cache_client rc1) = kv (cache_client rc)"
    using RedisCache_Get_kv [of vc now key rc] got by simp
  show ?thesis
  proof (cases "got = Inl ErrCacheMiss")
    case False
    with run got have "n = 0 \<and> res = got \<and> rc' = rc1 \<and> ext' = ext"
      by (cases got) (auto simp: Remember_def)
    with False k show ?thesis by simp
  next
    case True
    obtain r2 c2 e2 where f: "fn rc1 ext = (r2, c2, e2)" by (cases "fn rc1 ext") auto
    with run got True
    have "n = 1 \<and> ext' = e2 \<and> (\<forall>err. r2 = Inl err \<longrightarrow> res = Inl err \<and> rc' = c2)"
      by (auto simp: Remember_def counted_def split: sum.splits prod.splits option.splits)
    with True k f show ?thesis by simp
  qed
qed

theorem Remember_compute_once_witness:
  "Remember raw_codec 100 101 ''user:1'' 60 (counted failing_compute) cache0 (0, ())
     = (Inl (HandlerError ''database down''), cache0, (1, ()))"
proof -
  have got: "RedisCache_Get raw_codec 100 ''user:1'' cache0 = (Inl ErrCacheMiss, cache0)"
    by (simp add: RedisCache_Get_def cache0_def redis0_def redis_Get_absent)
  obtain res rc' n e where run:
    "Remember raw_codec 100 101 ''user:1'' 60 (counted failing_compute) cache0 (0, ())
       = (res, rc', (n, e))"
    by (cases "Remember raw_codec 100 101 ''user:1'' 60 (counted failing_compute) cache0 (0, ())")
      auto
  show ?thesis
    using Remember_compute_once [OF run got] run
    by (simp add: failing_compute_def)
qed

subsection \<open>Flushing tags\<close>

text \<open>
  One round of the loop, when the commands reach the server: the two deletions remove the
  value keys of the members and the tag key.
\<close>

lemma flush_step:
  assumes "faults r = []"
  shows "snd (redis_Del {tp @ tag}
            (if S \<noteq> {} then snd (redis_Del ((\<lambda>key. cp @ key) ` S) r) else r))
       = r\<lparr>kv := (\<lambda>k. if k \<in> (\<lambda>key. cp @ key) ` S \<or> k = tp @ tag then None else kv r k)\<rparr>"
  using assms by (auto simp: redis_Del_works fun_eq_iff)

lemma Flush_tags_spec:
  "faults r = [] \<Longrightarrow> Flush_tags now cp tp ts r = (None, r') \<Longrightarrow>
     faults r' = [] \<and> kv r' = flush_spec now cp tp ts (kv r)"
proof (induction ts arbitrary: r)
  case Nil
  then show ?case by simp
next
  case (Cons tag rest)
  obtain res r1 where sm: "redis_SMembers now (tp @ tag) r = (res, r1)"
    by (cases "redis_SMembers now (tp @ tag) r") auto
  with Cons.prems obtain S where res: "res = Inr S" by (cases res) auto
  have r1: "r1 = r" and S: "S = index_set now (kv r) (tp @ tag)"
    using redis_SMembers_works [of r now "tp @ tag" S r1] sm res Cons.prems(1) by simp_all
  let ?r3 = "r\<lparr>kv := (\<lambda>k. if k \<in> (\<lambda>key. cp @ key) ` S \<or> k = tp @ tag then None else kv r k)\<rparr>"
  have step: "Flush_tags now cp tp (tag # rest) r = Flush_tags now cp tp rest ?r3"
    using sm res r1 flush_step [OF Cons.prems(1), of tp tag S cp] by (simp add: Let_def)
  have f3: "faults ?r3 = []" using Cons.prems(1) by simp
  have "faults r' = [] \<and> kv r' = flush_spec now cp tp rest (kv ?r3)"
    using Cons.IH [OF f3] Cons.prems(2) step by simp
  then show ?case using S by simp
qed

lemma Flush_tags_succeeds:
  "faults r = [] \<Longrightarrow> \<forall>tag \<in> set ts. \<forall>b dl. kv r (tp @ tag) \<noteq> Some (RString b, dl) \<Longrightarrow>
     fst (Flush_tags now cp tp ts r) = None"
proof (induction ts arbitrary: r)
  case Nil
  then show ?case by simp
next
  case (Cons tag rest)
  let ?S = "index_set now (kv r) (tp @ tag)"
  let ?r3 = "r\<lparr>kv := (\<lambda>k. if k \<in> (\<lambda>key. cp @ key) ` ?S \<or> k = tp @ tag then None else kv r k)\<rparr>"
  have sm: "redis_SMembers now (tp @ tag) r = (Inr ?S, r)"
    using Cons.prems by (simp add: redis_SMembers_not_string)
  have step: "Flush_tags now cp tp (tag # rest) r = Flush_tags now cp tp rest ?r3"
    using sm flush_step [OF Cons.prems(1), of tp tag ?S cp] by (simp add: Let_def)
  have f3: "faults ?r3 = []" using Cons.prems(1) by simp
  have p3: "\<forall>tag \<in> set rest. \<forall>b dl. kv ?r3 (tp @ tag) \<noteq> Some (RString b, dl)"
    using Cons.prems(2) by simp
  show ?case using Cons.IH [OF f3 p3] step by simp
qed

lemma flush_spec_keeps_absent: "m k = None \<Longrightarrow> flush_spec now cp tp ts m k = None"
  by (induction ts arbitrary: m) auto

lemma flush_spec_clears: "tag \<in> set ts \<Longrightarrow> flush_spec now cp tp ts m (tp @ tag) = None"
  by (induction ts arbitrary: m) (auto simp: flush_spec_keeps_absent)

text \<open>A flush over tags whose keys are all absent deletes nothing and returns nil.\<close>

lemma Flush_tags_noop:
  "faults r = [] \<Longrightarrow> \<forall>tag \<in> set ts. kv r (tp @ tag) = None \<Longrightarrow>
     Flush_tags now cp tp ts r = (None, r)"
  by (induction ts) (auto simp: redis_SMembers_absent redis_Del_absent)

lemma Flush_twice:
  assumes up: "faults (cache_client rc) = []"
    and first: "TaggedCache_Flush now t rc = (None, rc1)"
  shows "kv (cache_client rc1)
           = flush_spec now (cache_prefix rc) (tag_prefix t) (tags t) (kv (cache_client rc))
       \<and> TaggedCache_Flush now' t rc1 = (None, rc1)"
proof -
  obtain e r' where ft:
    "Flush_tags now (cache_prefix rc) (tag_prefix t) (tags t) (cache_client rc) = (e, r')"
    by (cases "Flush_tags now (cache_prefix rc) (tag_prefix t) (tags t) (cache_client rc)") auto
  with first have e: "e = None" and rc1: "rc1 = rc\<lparr>cache_client := r'\<rparr>"
    by (auto simp: TaggedCache_Flush_def)
  have sp: "faults r' = [] \<and>
      kv r' = flush_spec now (cache_prefix rc) (tag_prefix t) (tags t) (kv (cache_client rc))"
    using Flush_tags_spec [OF up] ft e by simp
  then have cl: "\<forall>tag \<in> set (tags t). kv r' (tag_prefix t @ tag) = None"
    by (simp add: flush_spec_clears)
  have "Flush_tags now' (cache_prefix rc) (tag_prefix t) (tags t) r' = (None, r')"
    using Flush_tags_noop sp cl by blast
  then have "TaggedCache_Flush now' t rc1 = (None, rc1)"
    by (simp add: TaggedCache_Flush_def rc1)
  with sp show ?thesis by (simp add: rc1)
qed

text \<open>
  The scenario of the specification: a value set under the tag \<^verbatim>\<open>products\<close> gives the cache
  \<open>tagged_cache\<close>, and after a flush of the tag its key is a miss.
\<close>

lemma ten_minutes:
  "sent_expiration (600 * Second) = 600 * Second" "formatSec (600 * Second) = 600"
  "0 < 600 * Second"
  by (simp_all add: sent_expiration_def usePrecise_def formatSec_def quot_def Second_def)

lemma TaggedCache_Set_example:
  "TaggedCache_Set raw_codec 100 (Tags [''products'']) ''product:1'' ''{id:1}'' (600 * Second)
     cache0 = (None, tagged_cache)"
  by (simp add: TaggedCache_Set_def RedisCache_Set_def raw_codec_def cache0_def redis0_def
      Tags_def tagged_cache_def redis_Set_def redis_SAdd_def redis_Expire_def redis_attempt_def
      redis_lookup_def live_def ten_minutes)

lemma flush_then_get_example:
  "fst (RedisCache_Get raw_codec 102 ''product:1''
          (snd (TaggedCache_Flush 101 (Tags [''products'']) tagged_cache))) = Inl ErrCacheMiss"
  by (simp add: TaggedCache_Flush_def Tags_def tagged_cache_def redis_SMembers_def redis_Del_def
      redis_attempt_def redis_lookup_def live_def RedisCache_Get_def redis_Get_def Let_def
      Second_def)

text \<open>
  C8.  When the commands reach the server and no key of a tag holds a plain string (so
  that reading the members of a tag cannot fail), \<^verbatim>\<open>Flush\<close> returns nil and leaves the key
  space that the specification describes: tag after tag, every value key named by the tag's
  index set is removed, and the index entry itself; in particular no tag key is left.
  \<^verbatim>\<open>Flush\<close> is idempotent: a second call, at any instant \<open>now'\<close>, returns nil and leaves the
  state of the first call unchanged, so it deletes nothing.
\<close>

theorem TaggedCache_Flush_idempotent:
  assumes up: "faults (cache_client rc) = []"
    and sets: "\<forall>tag \<in> set (tags t). \<forall>b dl.
                 kv (cache_client rc) (tag_prefix t @ tag) \<noteq> Some (RString b, dl)"
    and rc1: "rc1 = snd (TaggedCache_Flush now t rc)"
  shows "fst (TaggedCache_Flush now t rc) = None
       \<and> kv (cache_client rc1)
           = flush_spec now (cache_prefix rc) (tag_prefix t) (tags t) (kv (cache_client rc))
       \<and> (\<forall>tag \<in> set (tags t). kv (cache_client rc1) (tag_prefix t @ tag) = None)
       \<and> TaggedCache_Flush now' t rc1 = (None, rc1)"
proof -
  have "fst (Flush_tags now (cache_prefix rc) (tag_prefix t) (tags t) (cache_client rc)) = None"
    using Flush_tags_succeeds [OF up sets] by simp
  then have "TaggedCache_Flush now t rc = (None, rc1)"
    by (simp add: rc1 TaggedCache_Flush_def case_prod_beta)
  from Flush_twice [OF up this, of now'] this show ?thesis by (simp add: flush_spec_clears)
qed

theorem TaggedCache_Flush_idempotent_witness:
  "fst (TaggedCache_Flush 100 (Tags [''products'']) tagged_cache) = None
   \<and> kv (cache_client (snd (TaggedCache_Flush 100 (Tags [''products'']) tagged_cache)))
        ''cache:product:1'' = None
   \<and> kv (cache_client (snd (TaggedCache_Flush 100 (Tags [''products'']) tagged_cache)))
        ''tag:products'' = None
   \<and> TaggedCache_Flush 101 (Tags [''products''])
        (snd (TaggedCache_Flush 100 (Tags [''products'']) tagged_cache))
      = (None, snd (TaggedCache_Flush 100 (Tags [''products'']) tagged_cache))"
proof -
  have up: "faults (cache_client tagged_cache) = []" by (simp add: tagged_cache_def)
  have sets: "\<forall>tag \<in> set (tags (Tags [''products''])). \<forall>b dl.
                 kv (cache_client tagged_cache) (tag_prefix (Tags [''products'']) @ tag)
                   \<noteq> Some (RString b, dl)"
    by (simp add: tagged_cache_def Tags_def)
  have ix: "index_set 100 (kv (cache_client tagged_cache)) ''tag:products'' = {''product:1''}"
    by (simp add: index_set_def tagged_cache_def live_def Second_def)
  show ?thesis
    using TaggedCache_Flush_idempotent [OF up sets refl, of 100 101] ix
    by (simp add: Tags_def tagged_cache_def)
qed

section \<open>Properties of the cache middleware\<close>

text \<open>
  Whenever the lookup of the middleware is not a hit, on a GET or HEAD request that is not
  skipped, the middleware does what the wrapped handler does and nothing else: the recorder
  never has a body, so the branch that stores the response is never taken.
\<close>

lemma cache_Middleware_miss:
  assumes "case SkipFunc config of None \<Rightarrow> True | Some skip \<Rightarrow> \<not> skip c"
    and "request_method c = ''GET'' \<or> request_method c = ''HEAD''"
    and "RedisCache_Get vc now
           ((case KeyFunc config of None \<Rightarrow> default_KeyFunc | Some f \<Rightarrow> f) c) rc = (Inl e, rc1)"
  shows "cache_Middleware vc config now now' next c rc x = next c rc1 x"
  using assms
  by (auto simp: cache_Middleware_def Let_def split: option.splits prod.splits)

text \<open>
  On a hit the stored response is replayed and the wrapped handler is not invoked: what the
  handler can reach is left as it was.
\<close>

lemma cache_Middleware_hit:
  assumes "case SkipFunc config of None \<Rightarrow> True | Some skip \<Rightarrow> \<not> skip c"
    and "request_method c = ''GET'' \<or> request_method c = ''HEAD''"
    and "RedisCache_Get vc now
           ((case KeyFunc config of None \<Rightarrow> default_KeyFunc | Some f \<Rightarrow> f) c) rc = (Inr cached, rc1)"
  shows "cache_Middleware vc config now now' next c rc x =
           (None,
            c\<lparr>response_headers := response_headers c ++ Headers cached,
              response_status := Status cached, response_body := Body cached\<rparr>,
            rc1, x)"
  using assms
  by (auto simp: cache_Middleware_def Let_def replay_def Context_Send_def Context_Status_def
      split: option.splits prod.splits)

text \<open>
  C1 fails on the code.  With the default configuration and an empty cache, the request
  \<^verbatim>\<open>GET /hello\<close> to a handler that answers 200 with a body runs the handler and stores
  nothing: the cache is still empty afterwards.  The same request again is a miss again and
  runs the handler a second time, as the counter of invocations shows.
\<close>

theorem cache_Middleware_never_stores:
  "cache_Middleware vc DefaultCacheConfig 100 101 hello_handler request0 cache0 0
     = hello_handler request0 cache0 0
   \<and> snd (snd (hello_handler request0 cache0 0)) = (cache0, 1)
   \<and> cache_Middleware vc DefaultCacheConfig 102 103 hello_handler request0 cache0 1
     = hello_handler request0 cache0 1
   \<and> snd (snd (hello_handler request0 cache0 1)) = (cache0, 2)"
proof -
  have miss: "\<And>t. RedisCache_Get vc t (default_KeyFunc request0) cache0 = (Inl ErrCacheMiss, cache0)"
    by (simp add: RedisCache_Get_def cache0_def redis0_def redis_Get_absent)
  have m: "request_method request0 = ''GET''" by (simp add: request0_def)
  have "\<And>t t' n. cache_Middleware vc DefaultCacheConfig t t' hello_handler request0 cache0 n
     = hello_handler request0 cache0 n"
    using miss m by (intro cache_Middleware_miss) (auto simp: DefaultCacheConfig_def)
  then show ?thesis by (simp add: hello_handler_def)
qed

end
